theory Spec2Isabelle
  imports Complex_Main "HOL-Library.Multiset" "HOL-Library.Sublist"
begin

section \<open>Feature service: data model\<close>

text \<open>
  \<^verbatim>\<open>feature-service/app/models/schemas.py\<close>: the two string enums and the
  \<^verbatim>\<open>UserFeatures\<close> / \<^verbatim>\<open>UserBehavior\<close> models. Python floats are
  modelled by \<^typ>\<open>real\<close>, datetimes by seconds on the real line.
\<close>

datatype ContentType = ARTICLE | VIDEO | PRODUCT

datatype ActionType = VIEW | CLICK | LIKE | SHARE | COMMENT | PURCHASE

fun action_value :: "ActionType \<Rightarrow> string" where
  "action_value VIEW = ''view''"
| "action_value CLICK = ''click''"
| "action_value LIKE = ''like''"
| "action_value SHARE = ''share''"
| "action_value COMMENT = ''comment''"
| "action_value PURCHASE = ''purchase''"

type_synonym datetime = real

record UserFeatures =
  user_id :: string
  interests :: "string list"
  behavior_score :: real
  activity_level :: string
  preferred_content_types :: "ContentType list"
  last_active :: "datetime option"
  feature_vector :: "real list"
  updated_at :: datetime

record UserBehavior =
  b_user_id :: string
  b_content_id :: string
  b_action_type :: ActionType
  b_content_type :: ContentType
  b_timestamp :: datetime

section \<open>Feature service: user features\<close>

text \<open>
  \<^verbatim>\<open>UserFeatureService.__init__\<close>: the dictionary \<^verbatim>\<open>behavior_weights\<close>.
  Every member of the enum is a key, so \<^verbatim>\<open>.get(action, 1.0)\<close> never takes
  its default; the model keeps the dictionary partial and the default explicit.
\<close>

definition behavior_weights :: "ActionType \<rightharpoonup> real" where
  "behavior_weights =
     [VIEW \<mapsto> 1.0, CLICK \<mapsto> 2.0, LIKE \<mapsto> 3.0, SHARE \<mapsto> 4.0, COMMENT \<mapsto> 3.5, PURCHASE \<mapsto> 5.0]"

definition weight_of :: "ActionType \<Rightarrow> real" where
  "weight_of a = (case behavior_weights a of Some w \<Rightarrow> w | None \<Rightarrow> 1.0)"

definition create_default_features :: "string \<Rightarrow> datetime \<Rightarrow> UserFeatures" where
  "create_default_features uid now =
     \<lparr>user_id = uid, interests = [], behavior_score = 0.0, activity_level = ''low'',
      preferred_content_types = [], last_active = None,
      feature_vector = replicate 64 0.0, updated_at = now\<rparr>"

text \<open>\<^verbatim>\<open>_update_interest_tags\<close>: a product behaviour adds no tag.\<close>

definition update_interest_tags :: "UserFeatures \<Rightarrow> UserBehavior \<Rightarrow> UserFeatures" where
  "update_interest_tags f b =
     (case b_content_type b of
        ARTICLE \<Rightarrow> if ''tech'' \<notin> set (interests f) then f\<lparr>interests := interests f @ [''tech'']\<rparr> else f
      | VIDEO \<Rightarrow> if ''entertainment'' \<notin> set (interests f)
                 then f\<lparr>interests := interests f @ [''entertainment'']\<rparr> else f
      | PRODUCT \<Rightarrow> f)"

text \<open>\<^verbatim>\<open>_update_activity_level\<close>: one step up when the previous activity is less than an hour old.\<close>

definition update_activity_level :: "UserFeatures \<Rightarrow> UserBehavior \<Rightarrow> UserFeatures" where
  "update_activity_level f b =
     (case last_active f of
        None \<Rightarrow> f
      | Some t \<Rightarrow>
          if b_timestamp b - t < 3600
          then (if activity_level f = ''low'' then f\<lparr>activity_level := ''medium''\<rparr>
                else if activity_level f = ''medium'' then f\<lparr>activity_level := ''high''\<rparr>
                else f)
          else f)"

text \<open>
  The body of \<^verbatim>\<open>process_user_behavior\<close> once the current features are at hand:
  the score is bumped by \<^verbatim>\<open>weight * 0.1\<close>, then tags, activity level and the
  two timestamps are updated. This is the record that is written back to the cache.
\<close>

definition patch_features :: "datetime \<Rightarrow> UserFeatures \<Rightarrow> UserBehavior \<Rightarrow> UserFeatures" where
  "patch_features now f b =
     (let f1 = f\<lparr>behavior_score := behavior_score f + weight_of (b_action_type b) * 0.1\<rparr>;
          f2 = update_interest_tags f1 b;
          f3 = update_activity_level f2 b
      in f3\<lparr>last_active := Some (b_timestamp b), updated_at := now\<rparr>)"

text \<open>
  \<^verbatim>\<open>_compute_user_features\<close>: the rows of the 30-day query are
  \<^verbatim>\<open>(action_type, content_type, count)\<close>; no row gives the default record,
  otherwise the weighted count is divided by 100 and cut at 10. The preferred content
  types and the feature vector play no role for the score and are left at their
  defaults here.
\<close>

type_synonym behavior_row = "ActionType \<times> ContentType \<times> nat"

definition total_score :: "behavior_row list \<Rightarrow> real" where
  "total_score rows = (\<Sum>(a, c, n) \<leftarrow> rows. weight_of a * real n)"

definition total_actions :: "behavior_row list \<Rightarrow> nat" where
  "total_actions rows = (\<Sum>(a, c, n) \<leftarrow> rows. n)"

definition compute_user_features :: "string \<Rightarrow> datetime \<Rightarrow> behavior_row list \<Rightarrow> UserFeatures" where
  "compute_user_features uid now rows =
     (if rows = [] then create_default_features uid now
      else (create_default_features uid now)
             \<lparr>behavior_score := min (total_score rows / 100.0) 10.0,
              activity_level := (if total_actions rows > 100 then ''high''
                                 else if total_actions rows > 20 then ''medium'' else ''low'')\<rparr>)"

text \<open>
  \<^verbatim>\<open>get_user_features\<close> and \<^verbatim>\<open>process_user_behavior\<close> over the cache: the
  cache is a map from user ids to records, the analytical store answers a query with
  rows or fails. A failed computation yields \<^verbatim>\<open>None\<close>, and the ingestion path
  then starts from the default record.
\<close>

datatype error = KeyError | ValueError | TypeError | ZeroDivisionError | ModelError | StoreError

type_synonym user_cache = "string \<rightharpoonup> UserFeatures"

definition get_user_features ::
  "user_cache \<Rightarrow> (string \<Rightarrow> error + behavior_row list) \<Rightarrow> datetime \<Rightarrow> string
     \<Rightarrow> UserFeatures option \<times> user_cache" where
  "get_user_features cache query now uid =
     (case cache uid of
        Some f \<Rightarrow> (Some f, cache)
      | None \<Rightarrow>
          (case query uid of
             Inl e \<Rightarrow> (None, cache)
           | Inr rows \<Rightarrow>
               let f = compute_user_features uid now rows in (Some f, cache(uid \<mapsto> f))))"

definition process_user_behavior ::
  "user_cache \<Rightarrow> (string \<Rightarrow> error + behavior_row list) \<Rightarrow> datetime \<Rightarrow> UserBehavior \<Rightarrow> user_cache" where
  "process_user_behavior cache query now b =
     (let (cur, cache1) = get_user_features cache query now (b_user_id b);
          current_features = (case cur of Some f \<Rightarrow> f
                              | None \<Rightarrow> create_default_features (b_user_id b) now);
          patched = patch_features now current_features b
      in cache1(b_user_id b \<mapsto> patched))"

section \<open>Feature service: aggregation templates of the behaviour log\<close>

text \<open>
  \<^verbatim>\<open>clickhouse_service.py\<close>: each query sums a \<^verbatim>\<open>multiIf\<close> over the
  \<^verbatim>\<open>action_type\<close> column, which is a string; an unlisted value counts 0.
  One definition per query, in the order of the source file.
\<close>

definition user_behavior_score_weight :: "string \<Rightarrow> real" where
  "user_behavior_score_weight a =
     (if a = ''view'' then 1 else if a = ''click'' then 2 else if a = ''like'' then 3
      else if a = ''share'' then 4 else if a = ''comment'' then 3.5
      else if a = ''purchase'' then 5 else 0)"

definition content_popularity_weight :: "string \<Rightarrow> real" where
  "content_popularity_weight a =
     (if a = ''view'' then 1 else if a = ''click'' then 2 else if a = ''like'' then 3
      else if a = ''share'' then 5 else if a = ''comment'' then 4
      else if a = ''purchase'' then 10 else 0)"

definition interaction_score_weight :: "string \<Rightarrow> real" where
  "interaction_score_weight a =
     (if a = ''view'' then 1 else if a = ''click'' then 2 else if a = ''like'' then 3
      else if a = ''share'' then 4 else if a = ''comment'' then 3.5
      else if a = ''purchase'' then 5 else 0)"

definition trend_score_weight :: "string \<Rightarrow> real" where
  "trend_score_weight a =
     (if a = ''view'' then 1 else if a = ''click'' then 2 else if a = ''like'' then 3
      else if a = ''share'' then 5 else if a = ''comment'' then 4 else 0)"

text \<open>
  The aggregate of one group of the \<^verbatim>\<open>GROUP BY\<close>, given by the actions of
  its rows inside the time window: the sum of the weights. Each query reports a group
  only if it passes the \<^verbatim>\<open>HAVING\<close> clause; \<open>None\<close> is a group that the
  query does not report. \<^verbatim>\<open>feature_config['min_interactions']\<close> is 5.
\<close>

definition weighted_sum :: "(string \<Rightarrow> real) \<Rightarrow> ActionType list \<Rightarrow> real" where
  "weighted_sum w actions = (\<Sum>a \<leftarrow> actions. w (action_value a))"

definition min_interactions :: nat where
  "min_interactions = 5"

text \<open>\<^verbatim>\<open>compute_user_offline_features\<close>: \<^verbatim>\<open>HAVING total_actions >= 5\<close>.\<close>

definition user_behavior_score :: "ActionType list \<Rightarrow> real option" where
  "user_behavior_score actions =
     (if length actions \<ge> min_interactions
      then Some (weighted_sum user_behavior_score_weight actions) else None)"

text \<open>\<^verbatim>\<open>compute_content_offline_features\<close>: \<^verbatim>\<open>HAVING total_interactions >= 5\<close>.\<close>

definition content_popularity_score :: "ActionType list \<Rightarrow> real option" where
  "content_popularity_score actions =
     (if length actions \<ge> min_interactions
      then Some (weighted_sum content_popularity_weight actions) else None)"

text \<open>
  \<^verbatim>\<open>compute_user_content_interaction_matrix\<close>:
  \<^verbatim>\<open>HAVING interaction_score > 0\<close>.
\<close>

definition interaction_score :: "ActionType list \<Rightarrow> real option" where
  "interaction_score actions =
     (if weighted_sum interaction_score_weight actions > 0
      then Some (weighted_sum interaction_score_weight actions) else None)"

text \<open>\<^verbatim>\<open>get_trending_contents\<close>: \<^verbatim>\<open>HAVING recent_interactions >= 10\<close>.\<close>

definition trend_score :: "ActionType list \<Rightarrow> real option" where
  "trend_score actions =
     (if length actions \<ge> 10 then Some (weighted_sum trend_score_weight actions) else None)"

section \<open>Ranking service: candidate ranking\<close>

text \<open>
  Items travel through the ranking and the fusion service as Python dictionaries. The
  record lists the keys the two services read or write; a key that is absent from the
  dictionary is \<open>None\<close>. \<^verbatim>\<open>publish_time\<close> falls into three cases: a naive
  datetime (or a string that parses to one), a timezone-aware one (subtracting it from
  \<^verbatim>\<open>datetime.now()\<close> raises), and a value that does not parse at all. A missing,
  \<^verbatim>\<open>None\<close> or empty \<^verbatim>\<open>publish_time\<close> is \<open>None\<close>.
\<close>

datatype ptime = Naive datetime | Aware datetime | Unparsable

record score_info =
  si_score :: real
  si_weight :: real
  si_position :: nat

record content =
  content_id :: "string option"
  title :: "string option"
  summary :: "string option"
  description :: "string option"
  score :: "real option"
  ranking_score :: "real option"
  category :: "string option"
  author_id :: "string option"
  content_type :: "string option"
  publish_time :: "ptime option"
  quality_score :: "real option"
  user_rating :: "real option"
  review_status :: "string option"
  popularity_score :: "real option"
  view_count :: "int option"
  like_count :: "int option"
  share_count :: "int option"
  comment_count :: "int option"
  device_preference :: "string list option"
  fusion_score :: "real option"
  algorithm_coverage :: "nat option"
  algorithm_details :: "(string \<times> score_info) list option"
  final_score :: "real option"
  score_breakdown :: "(real \<times> real \<times> real \<times> real) option"

text \<open>A dictionary with \<^verbatim>\<open>content_id\<close> and nothing else.\<close>

definition item :: "string \<Rightarrow> content" where
  "item cid =
     \<lparr>content_id = Some cid, title = None, summary = None, description = None, score = None,
      ranking_score = None, category = None, author_id = None, content_type = None,
      publish_time = None, quality_score = None, user_rating = None, review_status = None,
      popularity_score = None, view_count = None, like_count = None, share_count = None,
      comment_count = None, device_preference = None, fusion_score = None,
      algorithm_coverage = None, algorithm_details = None, final_score = None,
      score_breakdown = None\<rparr>"

text \<open>
  Dictionaries whose order of insertion matters are association lists without
  repeated keys: \<open>dict_update\<close> is \<^verbatim>\<open>d[k] = v\<close> (a new key goes to the end, an
  old one keeps its place). Feature dictionaries are such lists; \<^verbatim>\<open>{**a, **b}\<close>
  is \<open>dict_merge a b\<close>, where the entries of \<open>b\<close> win.
\<close>

datatype fval = FNum real | FStr string

type_synonym features = "(string \<times> fval) list"

fun dict_update :: "'k \<Rightarrow> 'v \<Rightarrow> ('k \<times> 'v) list \<Rightarrow> ('k \<times> 'v) list" where
  "dict_update k v [] = [(k, v)]"
| "dict_update k v ((k', v') # ps) = (if k' = k then (k, v) # ps else (k', v') # dict_update k v ps)"

definition dict_merge :: "features \<Rightarrow> features \<Rightarrow> features" where
  "dict_merge a b = foldl (\<lambda>d (k, v). dict_update k v d) a b"

text \<open>
  What \<^verbatim>\<open>RankingService\<close> calls: the feature store (a read raises or returns the
  cached dictionary, if any), the context processor, and the model behind the feature
  pipeline (\<^verbatim>\<open>float(model.predict(...)[0][0])\<close>, which raises or returns a score).
  The write-back of default features to the store is not part of the model: it stores
  what a miss yields anyway, and a failure of the write is caught with the same result.
\<close>

record RankingService =
  store_user :: "string \<Rightarrow> error + features option"
  store_content :: "string \<Rightarrow> error + features option"
  process_context_features :: "features \<Rightarrow> error + features"
  model_predict :: "features \<Rightarrow> error + real"

definition default_user_features :: features where
  "default_user_features =
     [(''user_age'', FNum 25.0), (''user_gender'', FStr ''Unknown''),
      (''user_activity_score'', FNum 0.5), (''user_interests'', FStr ''general'')]"

definition default_content_features :: features where
  "default_content_features =
     [(''content_type'', FStr ''article''), (''content_category'', FStr ''general''),
      (''content_hot_score'', FNum 0.5), (''content_duration'', FNum 300.0)]"

definition rank_get_user_features :: "RankingService \<Rightarrow> string \<Rightarrow> features" where
  "rank_get_user_features svc uid =
     (case store_user svc uid of
        Inl e \<Rightarrow> default_user_features
      | Inr None \<Rightarrow> default_user_features
      | Inr (Some f) \<Rightarrow> if f \<noteq> [] then f else default_user_features)"

definition rank_get_content_features :: "RankingService \<Rightarrow> string \<Rightarrow> features" where
  "rank_get_content_features svc cid =
     (case store_content svc cid of
        Inl e \<Rightarrow> default_content_features
      | Inr None \<Rightarrow> default_content_features
      | Inr (Some f) \<Rightarrow> if f \<noteq> [] then f else default_content_features)"

definition predict_score :: "RankingService \<Rightarrow> features \<Rightarrow> real" where
  "predict_score svc f = (case model_predict svc f of Inl e \<Rightarrow> 0.0 | Inr s \<Rightarrow> s)"

text \<open>
  The body of the inner \<^verbatim>\<open>try\<close> of \<^verbatim>\<open>rank_candidates\<close> for one candidate:
  \<^verbatim>\<open>candidate['content_id']\<close> raises when the key is missing; the two helpers
  catch their own exceptions.
\<close>

definition try_score_candidate ::
  "RankingService \<Rightarrow> features \<Rightarrow> features \<Rightarrow> content \<Rightarrow> error + content" where
  "try_score_candidate svc user_features context_features candidate =
     (case content_id candidate of
        None \<Rightarrow> Inl KeyError
      | Some cid \<Rightarrow>
          let content_features = rank_get_content_features svc cid;
              combined_features =
                dict_merge (dict_merge user_features content_features) context_features;
              s = predict_score svc combined_features
          in Inr (candidate\<lparr>ranking_score := Some s\<rparr>))"

definition score_candidate ::
  "RankingService \<Rightarrow> features \<Rightarrow> features \<Rightarrow> content \<Rightarrow> content" where
  "score_candidate svc user_features context_features candidate =
     (case try_score_candidate svc user_features context_features candidate of
        Inr c \<Rightarrow> c
      | Inl e \<Rightarrow> candidate\<lparr>ranking_score := Some 0.0\<rparr>)"

text \<open>
  \<^verbatim>\<open>sorted(xs, key=..., reverse=True)\<close>: Python reverses, sorts stably in ascending
  order and reverses again, so equal keys keep the order of the input.
\<close>

definition py_sorted_desc :: "('a \<Rightarrow> real) \<Rightarrow> 'a list \<Rightarrow> 'a list" where
  "py_sorted_desc key xs = rev (sort_key key (rev xs))"

text \<open>
  The sort key \<^verbatim>\<open>x['ranking_score']\<close>. Every scored candidate carries the key;
  the \<open>None\<close> branch stands for a \<^verbatim>\<open>KeyError\<close> that cannot occur.
\<close>

definition ranking_key :: "content \<Rightarrow> real" where
  "ranking_key x = (case ranking_score x of Some s \<Rightarrow> s | None \<Rightarrow> 0)"

text \<open>
  \<^verbatim>\<open>context_features = {}; if context: context_features = process_context_features(context)\<close>:
  the processor is called for a non-empty context only, and may raise.
\<close>

definition context_features_of :: "RankingService \<Rightarrow> features option \<Rightarrow> error + features" where
  "context_features_of svc context =
     (case context of
        None \<Rightarrow> Inr []
      | Some c \<Rightarrow> if c \<noteq> [] then process_context_features svc c else Inr [])"

text \<open>
  \<^verbatim>\<open>rank_candidates\<close>: an exception outside the per-candidate \<^verbatim>\<open>try\<close> (only
  the context processor can raise there) is answered with the candidates in request
  order, each with score \<^verbatim>\<open>0.0\<close>.
\<close>

definition rank_candidates ::
  "RankingService \<Rightarrow> string \<Rightarrow> content list \<Rightarrow> features option \<Rightarrow> content list" where
  "rank_candidates svc uid candidates context =
     (if candidates = [] then []
      else
        let user_features = rank_get_user_features svc uid
        in case context_features_of svc context of
             Inl e \<Rightarrow> map (\<lambda>c. c\<lparr>ranking_score := Some 0.0\<rparr>) candidates
           | Inr context_features \<Rightarrow>
               py_sorted_desc ranking_key
                 (map (score_candidate svc user_features context_features) candidates))"

section \<open>Ranking service: model server and request batching\<close>

text \<open>
  \<^verbatim>\<open>models/model_server.py\<close>. A \<^verbatim>\<open>PredictionRequest\<close> holds the features, the
  result slot and the event its submitter waits on. The model maps a list of feature
  dictionaries to a list of scores or raises; \<open>None\<close> is a server without a model.
\<close>

record PredictionRequest =
  features :: features
  result :: "real option"
  event :: bool

record ModelServer =
  model :: "(features list \<Rightarrow> error + real list) option"
  max_batch_size :: int
  pending_requests :: "PredictionRequest list"
  total_requests :: nat
  total_predictions :: nat
  batch_count :: nat

definition set_result :: "PredictionRequest \<Rightarrow> real \<Rightarrow> PredictionRequest" where
  "set_result req r = req\<lparr>result := Some r, event := True\<rparr>"

text \<open>
  \<^verbatim>\<open>get_result\<close>: the submitter reads the slot once the event is set, and
  \<^verbatim>\<open>0.0\<close> when its one-second wait runs out first.
\<close>

definition get_result :: "PredictionRequest \<Rightarrow> bool \<Rightarrow> real option" where
  "get_result req timed_out = (if event req \<and> \<not> timed_out then result req else Some 0.0)"

text \<open>The enqueueing half of \<^verbatim>\<open>predict_async\<close>.\<close>

definition enqueue :: "ModelServer \<Rightarrow> features \<Rightarrow> ModelServer" where
  "enqueue srv f =
     srv\<lparr>pending_requests := pending_requests srv @ [\<lparr>features = f, result = None, event = False\<rparr>],
         total_requests := total_requests srv + 1\<rparr>"

text \<open>
  \<^verbatim>\<open>predict_batch_sync\<close>: raises without a model; an exception of the model is
  caught and answered with a zero per input.
\<close>

definition predict_batch_sync ::
  "ModelServer \<Rightarrow> features list \<Rightarrow> error + (real list \<times> ModelServer)" where
  "predict_batch_sync srv features_list =
     (case model srv of
        None \<Rightarrow> Inl ValueError
      | Some m \<Rightarrow>
          (case m features_list of
             Inl e \<Rightarrow> Inr (replicate (length features_list) 0.0, srv)
           | Inr scores \<Rightarrow>
               Inr (scores, srv\<lparr>total_predictions := total_predictions srv + length features_list,
                                batch_count := batch_count srv + 1\<rparr>)))"

text \<open>\<^verbatim>\<open>for req, score in zip(batch_requests, scores): req.set_result(score)\<close>.\<close>

fun set_results :: "PredictionRequest list \<Rightarrow> real list \<Rightarrow> PredictionRequest list" where
  "set_results (r # rs) (s # ss) = set_result r s # set_results rs ss"
| "set_results rs [] = rs"
| "set_results [] ss = []"

definition process_batch ::
  "ModelServer \<Rightarrow> PredictionRequest list \<Rightarrow> PredictionRequest list \<times> ModelServer" where
  "process_batch srv batch_requests =
     (case predict_batch_sync srv (map features batch_requests) of
        Inr (scores, srv') \<Rightarrow> (set_results batch_requests scores, srv')
      | Inl e \<Rightarrow> (map (\<lambda>req. set_result req 0.0) batch_requests, srv))"

text \<open>Python's \<^verbatim>\<open>xs[:k]\<close> and \<^verbatim>\<open>xs[k:]\<close>, where a negative \<open>k\<close> counts from the end.\<close>

definition slice_to :: "'a list \<Rightarrow> int \<Rightarrow> 'a list" where
  "slice_to xs k = (if 0 \<le> k then take (nat k) xs else take (nat (int (length xs) + k)) xs)"

definition slice_from :: "'a list \<Rightarrow> int \<Rightarrow> 'a list" where
  "slice_from xs k = (if 0 \<le> k then drop (nat k) xs else drop (nat (int (length xs) + k)) xs)"

text \<open>
  One pass of the loop of \<^verbatim>\<open>batch_processor\<close>: seal up to \<^verbatim>\<open>max_batch_size\<close>
  requests from the head of the queue and process them. The result is the sealed
  batch after processing and the new server state.
\<close>

definition batch_processor_step :: "ModelServer \<Rightarrow> PredictionRequest list \<times> ModelServer" where
  "batch_processor_step srv =
     (if pending_requests srv \<noteq> []
      then
        let batch_size = min (int (length (pending_requests srv))) (max_batch_size srv);
            batch_requests = slice_to (pending_requests srv) batch_size;
            srv1 = srv\<lparr>pending_requests := slice_from (pending_requests srv) batch_size\<rparr>
        in if batch_requests \<noteq> [] then process_batch srv1 batch_requests else ([], srv1)
      else ([], srv))"

section \<open>Fusion and rerank service: configuration\<close>

text \<open>
  \<^verbatim>\<open>services/fusion_reranking_service.py\<close>. Every section of the configuration is
  read with \<^verbatim>\<open>.get(key, default)\<close>, so every key may be missing; the defaults
  are written where the source reads the key.
\<close>

record diversity_cfg =
  category_diversity_weight :: "real option"
  content_type_diversity_weight :: "real option"
  author_diversity_weight :: "real option"
  time_diversity_weight :: "real option"
  max_same_category_ratio :: "real option"
  max_same_author_ratio :: "real option"

record business_cfg =
  min_content_quality_score :: "real option"
  max_content_age_days :: "int option"
  blocked_categories :: "string list option"
  blocked_authors :: "string list option"
  min_user_rating :: "real option"
  require_content_review :: "bool option"

record dedup_cfg =
  similarity_threshold :: "real option"
  title_similarity_weight :: "real option"
  content_similarity_weight :: "real option"

record final_ranking_cfg =
  base_score_weight :: "real option"
  freshness_boost_weight :: "real option"
  popularity_boost_weight :: "real option"
  personalization_boost_weight :: "real option"
  freshness_half_life_hours :: "real option"
  max_popularity_score :: "real option"

record FusionRerankingService =
  algorithm_weights :: "(string \<times> real) list"
  diversity_config :: diversity_cfg
  business_rules :: business_cfg
  dedup_config :: dedup_cfg
  final_ranking_config :: final_ranking_cfg

text \<open>\<^verbatim>\<open>d.get(key, default)\<close> on an optional value.\<close>

definition get_or :: "'a option \<Rightarrow> 'a \<Rightarrow> 'a" where
  "get_or v d = (case v of Some x \<Rightarrow> x | None \<Rightarrow> d)"

text \<open>\<^verbatim>\<open>_get_default_config\<close>.\<close>

definition default_config :: FusionRerankingService where
  "default_config =
     \<lparr>algorithm_weights =
        [(''collaborative_filtering'', 0.3), (''content_based'', 0.3), (''deep_learning'', 0.4)],
      diversity_config =
        \<lparr>category_diversity_weight = Some 0.3, content_type_diversity_weight = Some 0.2,
         author_diversity_weight = Some 0.2, time_diversity_weight = Some 0.3,
         max_same_category_ratio = Some 0.4, max_same_author_ratio = Some 0.3\<rparr>,
      business_rules =
        \<lparr>min_content_quality_score = Some 0.6, max_content_age_days = Some 30,
         blocked_categories = Some [], blocked_authors = Some [],
         min_user_rating = Some 3.0, require_content_review = Some True\<rparr>,
      dedup_config =
        \<lparr>similarity_threshold = Some 0.8, title_similarity_weight = Some 0.4,
         content_similarity_weight = Some 0.6\<rparr>,
      final_ranking_config =
        \<lparr>base_score_weight = Some 0.6, freshness_boost_weight = Some 0.15,
         popularity_boost_weight = Some 0.15, personalization_boost_weight = Some 0.1,
         freshness_half_life_hours = Some 24, max_popularity_score = Some 20\<rparr>\<rparr>"

section \<open>Fusion and rerank service: weighted fusion\<close>

text \<open>
  \<^verbatim>\<open>_fuse_algorithm_results\<close>, first loop. The state is the pair of
  \<^verbatim>\<open>all_contents\<close> (the first dictionary seen for each id) and
  \<^verbatim>\<open>content_scores\<close> (per id, the entry of each algorithm that produced it).
  \<^verbatim>\<open>content['content_id']\<close> raises on a dictionary without the key.
\<close>

type_synonym fusion_state =
  "(string \<times> content) list \<times> (string \<times> (string \<times> score_info) list) list"

definition original_score :: "content \<Rightarrow> real" where
  "original_score c = get_or (score c) (get_or (ranking_score c) 0.5)"

definition record_content ::
  "string \<Rightarrow> real \<Rightarrow> nat \<Rightarrow> string \<Rightarrow> content \<Rightarrow> fusion_state \<Rightarrow> fusion_state" where
  "record_content algorithm_name algorithm_weight idx cid c st =
     (let (all_contents, content_scores) = st;
          all_contents' = (if map_of all_contents cid = None
                           then all_contents @ [(cid, c)] else all_contents);
          position_score = 1.0 / (real idx + 1);
          combined_score = original_score c * position_score;
          info = \<lparr>si_score = combined_score, si_weight = algorithm_weight, si_position = idx\<rparr>;
          entry = get_or (map_of content_scores cid) []
      in (all_contents', dict_update cid (dict_update algorithm_name info entry) content_scores))"

fun collect_results ::
  "string \<Rightarrow> real \<Rightarrow> nat \<Rightarrow> content list \<Rightarrow> fusion_state \<Rightarrow> error + fusion_state" where
  "collect_results algorithm_name algorithm_weight idx [] st = Inr st"
| "collect_results algorithm_name algorithm_weight idx (c # cs) st =
     (case content_id c of
        None \<Rightarrow> Inl KeyError
      | Some cid \<Rightarrow>
          collect_results algorithm_name algorithm_weight (Suc idx) cs
            (record_content algorithm_name algorithm_weight idx cid c st))"

fun collect_algorithms ::
  "FusionRerankingService \<Rightarrow> (string \<times> content list) list \<Rightarrow> fusion_state \<Rightarrow> error + fusion_state" where
  "collect_algorithms svc [] st = Inr st"
| "collect_algorithms svc ((algorithm_name, results) # rest) st =
     (case collect_results algorithm_name
             (get_or (map_of (algorithm_weights svc) algorithm_name) 0.1) 0 results st of
        Inl e \<Rightarrow> Inl e
      | Inr st' \<Rightarrow> collect_algorithms svc rest st')"

text \<open>
  Second loop, for one id: the weighted mean of the algorithm entries plus the coverage
  bonus. The division by the number of configured algorithms raises when none is
  configured.
\<close>

definition fuse_content ::
  "FusionRerankingService \<Rightarrow> (string \<times> score_info) list \<Rightarrow> content \<Rightarrow> error + content" where
  "fuse_content svc algorithm_scores c =
     (let weighted_score = (\<Sum>(a, i) \<leftarrow> algorithm_scores. si_score i * si_weight i);
          total_weight = (\<Sum>(a, i) \<leftarrow> algorithm_scores. si_weight i);
          final_score = (if total_weight > 0 then weighted_score / total_weight else 0.0)
      in if length (algorithm_weights svc) = 0 then Inl ZeroDivisionError
         else
           let coverage_bonus =
                 real (length algorithm_scores) / real (length (algorithm_weights svc)) * 0.1
           in Inr (c\<lparr>fusion_score := Some (final_score + coverage_bonus),
                    algorithm_coverage := Some (length algorithm_scores),
                    algorithm_details := Some algorithm_scores\<rparr>))"

text \<open>
  The arithmetic of the two loops for one item, operation by operation, with the result
  of every operation passed through \<open>rnd\<close>. An entry is the raw score, the index and
  the algorithm weight of one algorithm that produced the item. With the identity for
  \<open>rnd\<close> this is the score that \<open>fuse_content\<close> attaches; with \<open>binary64\<close> below
  it is the value the interpreter computes in double precision.
\<close>

definition fusion_score_with ::
  "(real \<Rightarrow> real) \<Rightarrow> (real \<times> nat \<times> real) list \<Rightarrow> nat \<Rightarrow> error + real" where
  "fusion_score_with rnd entries configured =
     (let (weighted_score, total_weight) =
            foldl (\<lambda>(ws, tw) (original, idx, weight).
                     let position_score = rnd (1.0 / rnd (real idx + 1));
                         combined_score = rnd (original * position_score)
                     in (rnd (ws + rnd (combined_score * weight)), rnd (tw + weight)))
              (0.0, 0.0) entries;
          final_score = (if total_weight > 0 then rnd (weighted_score / total_weight) else 0.0)
      in if configured = 0 then Inl ZeroDivisionError
         else
           let coverage_bonus = rnd (rnd (real (length entries) / real configured) * rnd 0.1)
           in Inr (rnd (final_score + coverage_bonus)))"

text \<open>
  Rounding to double precision (IEEE 754 binary64, round to nearest, ties to even) of a
  real number whose magnitude lies in the normal range: the binary exponent is found
  by halving or doubling, and the number is rounded to a multiple of 2 to the power of
  the exponent minus 52.
\<close>

definition round_half_even :: "real \<Rightarrow> int" where
  "round_half_even y =
     (let f = \<lfloor>y\<rfloor>; r = y - of_int f
      in if r < 1 / 2 then f else if r > 1 / 2 then f + 1 else if even f then f else f + 1)"

fun binary_exponent :: "nat \<Rightarrow> real \<Rightarrow> int" where
  "binary_exponent 0 x = 0"
| "binary_exponent (Suc n) x =
     (if x \<ge> 2 then binary_exponent n (x / 2) + 1
      else if x < 1 then binary_exponent n (x * 2) - 1
      else 0)"

definition binary64 :: "real \<Rightarrow> real" where
  "binary64 x =
     (if x = 0 then 0
      else
        let e = binary_exponent 1100 \<bar>x\<bar> - 52;
            q = (if e \<ge> 0 then 2 ^ nat e else 1 / 2 ^ nat (- e))
        in of_int (round_half_even (x / q)) * q)"

fun fuse_contents ::
  "FusionRerankingService \<Rightarrow> (string \<times> (string \<times> score_info) list) list
     \<Rightarrow> (string \<times> content) list \<Rightarrow> error + content list" where
  "fuse_contents svc content_scores [] = Inr []"
| "fuse_contents svc content_scores ((cid, c) # rest) =
     (case fuse_content svc (get_or (map_of content_scores cid) []) c of
        Inl e \<Rightarrow> Inl e
      | Inr fc \<Rightarrow>
          (case fuse_contents svc content_scores rest of
             Inl e \<Rightarrow> Inl e
           | Inr fcs \<Rightarrow> Inr (fc # fcs)))"

text \<open>
  The sort key \<^verbatim>\<open>x['fusion_score']\<close>; every fused item carries the key.
\<close>

definition fusion_key :: "content \<Rightarrow> real" where
  "fusion_key x = get_or (fusion_score x) 0"

definition fuse_algorithm_results ::
  "FusionRerankingService \<Rightarrow> (string \<times> content list) list \<Rightarrow> error + content list" where
  "fuse_algorithm_results svc algorithm_results =
     (case collect_algorithms svc algorithm_results ([], []) of
        Inl e \<Rightarrow> Inl e
      | Inr (all_contents, content_scores) \<Rightarrow>
          (case fuse_contents svc content_scores all_contents of
             Inl e \<Rightarrow> Inl e
           | Inr fused_results \<Rightarrow> Inr (py_sorted_desc fusion_key fused_results)))"

section \<open>Fusion and rerank service: deduplication\<close>

text \<open>
  \<^verbatim>\<open>str.lower()\<close> and \<^verbatim>\<open>str.split()\<close>. A character is a code point
  below 256: the capital letters (65 to 90, and 192 to 222 without the multiplication
  sign 215) are lowered by adding 32, and a string is cut at runs of whitespace (the
  codes 9 to 13, 28 to 32, 133 and 160).
\<close>

definition lower_char :: "char \<Rightarrow> char" where
  "lower_char c =
     (let n = (of_char c :: nat)
      in if (65 \<le> n \<and> n \<le> 90) \<or> (192 \<le> n \<and> n \<le> 222 \<and> n \<noteq> 215)
         then char_of (n + 32) else c)"

definition str_lower :: "string \<Rightarrow> string" where
  "str_lower s = map lower_char s"

definition is_space :: "char \<Rightarrow> bool" where
  "is_space c =
     (let n = (of_char c :: nat)
      in (9 \<le> n \<and> n \<le> 13) \<or> (28 \<le> n \<and> n \<le> 32) \<or> n = 133 \<or> n = 160)"

fun split_acc :: "string \<Rightarrow> string \<Rightarrow> string list" where
  "split_acc w [] = (if w = [] then [] else [w])"
| "split_acc w (c # cs) =
     (if is_space c then (if w = [] then split_acc [] cs else w # split_acc [] cs)
      else split_acc (w @ [c]) cs)"

definition str_split :: "string \<Rightarrow> string list" where
  "str_split s = split_acc [] s"

text \<open>\<^verbatim>\<open>_calculate_text_similarity\<close>: Jaccard similarity of the two word sets.\<close>

definition calculate_text_similarity :: "string \<Rightarrow> string \<Rightarrow> real" where
  "calculate_text_similarity text1 text2 =
     (if text1 = [] \<or> text2 = [] then 0.0
      else
        let words1 = set (str_split text1); words2 = set (str_split text2)
        in if words1 = {} \<and> words2 = {} then 1.0
           else
             let intersection = card (words1 \<inter> words2); union = card (words1 \<union> words2)
             in if union > 0 then real intersection / real union else 0.0)"







section \<open>Fusion and rerank service: business rules\<close>

text \<open>
  \<^verbatim>\<open>(current_time - publish_datetime).days\<close>: whole days, rounded down. The
  subtraction raises for a timezone-aware datetime, the parse for an unparsable value.
\<close>

definition content_age_days :: "datetime \<Rightarrow> ptime \<Rightarrow> error + int" where
  "content_age_days current_time pt =
     (case pt of
        Naive t \<Rightarrow> Inr \<lfloor>(current_time - t) / 86400\<rfloor>
      | Aware t \<Rightarrow> Inl TypeError
      | Unparsable \<Rightarrow> Inl ValueError)"

record fusion_context =
  user_active_hours :: "int list option"
  device_type :: "string option"

text \<open>
  \<^verbatim>\<open>_check_user_preferences\<close> reads the context and accepts every item.
\<close>

definition check_user_preferences :: "content \<Rightarrow> string \<Rightarrow> fusion_context option \<Rightarrow> bool" where
  "check_user_preferences c uid context = True"

datatype filter_reason =
  low_quality | too_old | blocked_category | blocked_author | low_rating | not_reviewed
  | user_preference

text \<open>
  The body of the loop of \<^verbatim>\<open>_apply_business_rules\<close> for one item: the key of
  \<^verbatim>\<open>filter_stats\<close> under which the item is rejected, or \<open>None\<close> when it is
  kept. An exception in the age check is caught and the check skipped.
\<close>

definition rejection ::
  "FusionRerankingService \<Rightarrow> datetime \<Rightarrow> string \<Rightarrow> fusion_context option \<Rightarrow> content
     \<Rightarrow> filter_reason option" where
  "rejection svc current_time uid context c =
     (let rules = business_rules svc in
      if get_or (quality_score c) 0.8 < get_or (min_content_quality_score rules) 0.6
      then Some low_quality
      else if (case publish_time c of
                 None \<Rightarrow> False
               | Some pt \<Rightarrow>
                   (case content_age_days current_time pt of
                      Inl e \<Rightarrow> False
                    | Inr content_age \<Rightarrow> content_age > get_or (max_content_age_days rules) 30))
      then Some too_old
      else if get_or (category c) [] \<in> set (get_or (blocked_categories rules) [])
      then Some blocked_category
      else if get_or (author_id c) [] \<in> set (get_or (blocked_authors rules) [])
      then Some blocked_author
      else if get_or (user_rating c) 5.0 < get_or (min_user_rating rules) 3.0
      then Some low_rating
      else if get_or (require_content_review rules) True
              \<and> get_or (review_status c) ''pending'' \<noteq> ''approved''
      then Some not_reviewed
      else if \<not> check_user_preferences c uid context
      then Some user_preference
      else None)"


definition filter_stats ::
  "FusionRerankingService \<Rightarrow> datetime \<Rightarrow> content list \<Rightarrow> string \<Rightarrow> fusion_context option
     \<Rightarrow> filter_reason \<Rightarrow> nat" where
  "filter_stats svc current_time results uid context reason =
     length (filter (\<lambda>c. rejection svc current_time uid context c = Some reason) results)"

section \<open>Fusion and rerank service: diversity\<close>

text \<open>
  The four counters of \<^verbatim>\<open>_ensure_diversity\<close>. A time bucket is the date and the
  quarter of the day of the publish time, or the key \<^verbatim>\<open>'unknown'\<close>.
\<close>

datatype time_bucket = Bucket int int | UnknownBucket

record diversity_counters =
  category_count :: "string \<Rightarrow> nat"
  content_type_count :: "string \<Rightarrow> nat"
  author_count :: "string \<Rightarrow> nat"
  time_bucket_count :: "time_bucket \<Rightarrow> nat"

definition empty_counters :: diversity_counters where
  "empty_counters =
     \<lparr>category_count = (\<lambda>k. 0), content_type_count = (\<lambda>k. 0), author_count = (\<lambda>k. 0),
      time_bucket_count = (\<lambda>k. 0)\<rparr>"

definition time_bucket_of :: "ptime \<Rightarrow> error + time_bucket" where
  "time_bucket_of pt =
     (case pt of
        Naive t \<Rightarrow> Inr (Bucket \<lfloor>t / 86400\<rfloor> ((\<lfloor>t / 3600\<rfloor> mod 24) div 6))
      | Aware t \<Rightarrow> Inr (Bucket \<lfloor>t / 86400\<rfloor> ((\<lfloor>t / 3600\<rfloor> mod 24) div 6))
      | Unparsable \<Rightarrow> Inl ValueError)"

definition update_diversity_counters :: "content \<Rightarrow> diversity_counters \<Rightarrow> diversity_counters" where
  "update_diversity_counters c cnt =
     (let cat = get_or (category c) ''unknown'';
          typ = get_or (content_type c) ''unknown'';
          aut = get_or (author_id c) ''unknown'';
          cnt1 = cnt\<lparr>category_count := (category_count cnt)(cat := category_count cnt cat + 1),
                     content_type_count := (content_type_count cnt)(typ := content_type_count cnt typ + 1),
                     author_count := (author_count cnt)(aut := author_count cnt aut + 1)\<rparr>
      in case publish_time c of
           None \<Rightarrow> cnt1
         | Some pt \<Rightarrow>
             let b = (case time_bucket_of pt of Inr b \<Rightarrow> b | Inl e \<Rightarrow> UnknownBucket)
             in cnt1\<lparr>time_bucket_count := (time_bucket_count cnt1)(b := time_bucket_count cnt1 b + 1)\<rparr>)"

definition calculate_diversity_score ::
  "FusionRerankingService \<Rightarrow> content \<Rightarrow> content list \<Rightarrow> diversity_counters \<Rightarrow> real" where
  "calculate_diversity_score svc candidate selected cnt =
     (if selected = [] then 1.0
      else
        let cfg = diversity_config svc;
            total_selected = real (length selected);
            category_ratio =
              real (category_count cnt (get_or (category candidate) ''unknown'')) / total_selected;
            category_penalty = max 0 (category_ratio - get_or (max_same_category_ratio cfg) 0.4);
            s1 = (1.0 - category_penalty) * get_or (category_diversity_weight cfg) 0.3;
            type_ratio =
              real (content_type_count cnt (get_or (content_type candidate) ''unknown''))
                / total_selected;
            s2 = s1 + (1.0 - type_ratio) * get_or (content_type_diversity_weight cfg) 0.2;
            author_ratio =
              real (author_count cnt (get_or (author_id candidate) ''unknown'')) / total_selected;
            author_penalty = max 0 (author_ratio - get_or (max_same_author_ratio cfg) 0.3);
            s3 = s2 + (1.0 - author_penalty) * get_or (author_diversity_weight cfg) 0.2;
            s4 = (case publish_time candidate of
                    None \<Rightarrow> s3
                  | Some pt \<Rightarrow>
                      (case time_bucket_of pt of
                         Inr b \<Rightarrow>
                           s3 + (1.0 - real (time_bucket_count cnt b) / total_selected)
                                  * get_or (time_diversity_weight cfg) 0.3
                       | Inl e \<Rightarrow> s3 + 0.5 * get_or (time_diversity_weight cfg) 0.3))
        in min 1.0 (max 0.0 s4))"

text \<open>
  The inner \<^verbatim>\<open>for\<close> loop of one round: the first candidate with the greatest
  combined score above \<open>-1\<close>, with its index.
\<close>

fun select_best ::
  "FusionRerankingService \<Rightarrow> content list \<Rightarrow> diversity_counters \<Rightarrow> content list \<Rightarrow> nat \<Rightarrow> real
     \<Rightarrow> (nat \<times> content) option \<Rightarrow> (nat \<times> content) option" where
  "select_best svc selected cnt [] idx best_score best = best"
| "select_best svc selected cnt (candidate # cs) idx best_score best =
     (let diversity_score = calculate_diversity_score svc candidate selected cnt;
          relevance_score = get_or (fusion_score candidate) 0.0;
          combined_score = 0.7 * relevance_score + (1 - 0.7) * diversity_score
      in if combined_score > best_score
         then select_best svc selected cnt cs (Suc idx) combined_score (Some (idx, candidate))
         else select_best svc selected cnt cs (Suc idx) best_score best)"

text \<open>
  \<^verbatim>\<open>if best_candidate:\<close> is the truth value of a dictionary: false for
  \<^verbatim>\<open>None\<close> and for the empty dictionary.
\<close>

definition empty_dict :: content where
  "empty_dict =
     \<lparr>content_id = None, title = None, summary = None, description = None, score = None,
      ranking_score = None, category = None, author_id = None, content_type = None,
      publish_time = None, quality_score = None, user_rating = None, review_status = None,
      popularity_score = None, view_count = None, like_count = None, share_count = None,
      comment_count = None, device_preference = None, fusion_score = None,
      algorithm_coverage = None, algorithm_details = None, final_score = None,
      score_breakdown = None\<rparr>"

definition remove_at :: "nat \<Rightarrow> 'a list \<Rightarrow> 'a list" where
  "remove_at i xs = take i xs @ drop (Suc i) xs"

text \<open>
  The \<^verbatim>\<open>while\<close> loop. A round that selects nothing changes nothing, so the
  loop repeats it forever: the result is \<open>None\<close> when the loop does not return.
\<close>

partial_function (option) mmr_loop ::
  "FusionRerankingService \<Rightarrow> int \<Rightarrow> content list \<Rightarrow> content list \<Rightarrow> diversity_counters
     \<Rightarrow> content list option" where
  "mmr_loop svc target_size diversified remaining cnt =
     (if int (length diversified) < target_size \<and> remaining \<noteq> []
      then
        (case select_best svc diversified cnt remaining 0 (-1) None of
           None \<Rightarrow> mmr_loop svc target_size diversified remaining cnt
         | Some (best_idx, best_candidate) \<Rightarrow>
             if best_candidate \<noteq> empty_dict
             then mmr_loop svc target_size (diversified @ [best_candidate])
                    (remove_at best_idx remaining)
                    (update_diversity_counters best_candidate cnt)
             else mmr_loop svc target_size diversified remaining cnt)
      else Some diversified)"

definition ensure_diversity ::
  "FusionRerankingService \<Rightarrow> content list \<Rightarrow> int \<Rightarrow> content list option" where
  "ensure_diversity svc results target_size =
     (if int (length results) \<le> target_size then Some results
      else
        (case results of
           [] \<Rightarrow> mmr_loop svc target_size [] [] empty_counters
         | best_item # remaining \<Rightarrow>
             mmr_loop svc target_size [best_item] remaining
               (update_diversity_counters best_item empty_counters)))"

section \<open>Fusion and rerank service: final ranking and the pipeline\<close>













section \<open>Fusion and rerank service: notions used in the proofs\<close>



section \<open>Example services and servers\<close>

text \<open>
  Concrete collaborators on which the properties below are evaluated: a ranking service
  whose model scores everything with 0.42; one whose feature store is down and whose
  model returns the hot score of the content features; one whose model always raises;
  a model server whose model scores each input with its number of features, and one
  whose model raises.
\<close>

definition tie_service :: RankingService where
  "tie_service = \<lparr>store_user = (\<lambda>u. Inr None), store_content = (\<lambda>c. Inr None),
     process_context_features = (\<lambda>c. Inr c), model_predict = (\<lambda>f. Inr 0.42)\<rparr>"

definition hot_score_model :: "features \<Rightarrow> error + real" where
  "hot_score_model f =
     (case map_of f ''content_hot_score'' of Some (FNum h) \<Rightarrow> Inr h | _ \<Rightarrow> Inl ModelError)"

definition store_down_service :: RankingService where
  "store_down_service = \<lparr>store_user = (\<lambda>u. Inl StoreError), store_content = (\<lambda>c. Inl StoreError),
     process_context_features = (\<lambda>c. Inr c), model_predict = hot_score_model\<rparr>"

definition model_down_service :: RankingService where
  "model_down_service = \<lparr>store_user = (\<lambda>u. Inr None), store_content = (\<lambda>c. Inr None),
     process_context_features = (\<lambda>c. Inr c), model_predict = (\<lambda>f. Inl ModelError)\<rparr>"

definition count_model :: "features list \<Rightarrow> error + real list" where
  "count_model fs = Inr (map (\<lambda>f. real (length f)) fs)"

definition idle_server :: ModelServer where
  "idle_server = \<lparr>model = Some count_model, max_batch_size = 64, pending_requests = [],
     total_requests = 0, total_predictions = 0, batch_count = 0\<rparr>"

definition failing_server :: ModelServer where
  "failing_server = \<lparr>model = Some (\<lambda>fs. Inl ModelError), max_batch_size = 64, pending_requests = [],
     total_requests = 0, total_predictions = 0, batch_count = 0\<rparr>"

definition two_pending :: ModelServer where
  "two_pending = foldl enqueue idle_server [[], [(''user_age'', FNum 25)]]"

definition two_pending_failing :: ModelServer where
  "two_pending_failing = foldl enqueue failing_server [[], [(''user_age'', FNum 25)]]"

text \<open>
  For the fusion service: the default configuration with two algorithms of weight 0.5
  each; an approved item with the same text as title and summary; three requests.
\<close>

definition two_algorithms :: FusionRerankingService where
  "two_algorithms = default_config\<lparr>algorithm_weights := [(''algorithm_1'', 0.5), (''algorithm_2'', 0.5)]\<rparr>"

definition article :: "string \<Rightarrow> string \<Rightarrow> real \<Rightarrow> content" where
  "article cid text s =
     (item cid)\<lparr>title := Some text, summary := Some text, score := Some s,
                review_status := Some ''approved''\<rparr>"

definition near_duplicate_results :: "(string \<times> content list) list" where
  "near_duplicate_results =
     [(''algorithm_1'', [article ''a'' ''Deep Learning Basics'' 0.9, article ''b'' ''Cooking Tips'' 0.8]),
      (''algorithm_2'', [article ''c'' ''deep learning basics'' 0.7])]"

definition only_first_results :: "(string \<times> content list) list" where
  "only_first_results =
     [(''algorithm_1'', [article ''x'' ''Item X'' 0.8, article ''z'' ''Item Z'' 0.6]),
      (''algorithm_2'', [article ''z'' ''Item Z'' 0.7])]"

definition both_results :: "(string \<times> content list) list" where
  "both_results =
     [(''algorithm_1'', [article ''y'' ''Item Y'' 0.8, article ''z'' ''Item Z'' 0.6]),
      (''algorithm_2'', [article ''y'' ''Item Y'' 0.8])]"

section \<open>Properties of the feature service\<close>

lemma weight_of_simps:
  "weight_of VIEW = 1" "weight_of CLICK = 2" "weight_of LIKE = 3"
  "weight_of SHARE = 4" "weight_of COMMENT = 3.5" "weight_of PURCHASE = 5"
  by (simp_all add: weight_of_def behavior_weights_def)

lemma compute_user_features_clamped:
  "behavior_score (compute_user_features uid now rows) \<le> 10"
  by (simp add: compute_user_features_def create_default_features_def)

text \<open>
  C4 (code behaviour at the failing input). A viewer whose cached record holds the
  score 10 (the value the recomputation path produces for a weighted count of 1000 or
  more) performs one purchase: the record written back by the ingestion path holds
  10.5, outside \<open>[0, 10]\<close>.
\<close>

theorem C4_patch_exceeds_ten:
  "behavior_score (the (process_user_behavior
       [''1001'' \<mapsto> (create_default_features ''1001'' 0)\<lparr>behavior_score := 10\<rparr>]
       (\<lambda>u. Inr []) 5
       \<lparr>b_user_id = ''1001'', b_content_id = ''2001'', b_action_type = PURCHASE,
        b_content_type = PRODUCT, b_timestamp = 4\<rparr> ''1001'')) = 10.5"
  by (simp add: process_user_behavior_def get_user_features_def patch_features_def
      update_interest_tags_def update_activity_level_def create_default_features_def
      weight_of_simps)

text \<open>
  C5 (as stated, refuted). An item with five shares in the window is reported by the
  item-aggregate query with popularity score 25, five times the weight 5; the
  action-weight table of the service, which weighs a share with 4, gives 20 for the
  same five events.
\<close>

theorem C5_counterexample:
  "content_popularity_score [SHARE, SHARE, SHARE, SHARE, SHARE] = Some 25
   \<and> (\<Sum>a \<leftarrow> [SHARE, SHARE, SHARE, SHARE, SHARE]. weight_of a) = 20"
  by (simp add: content_popularity_score_def min_interactions_def weighted_sum_def
      content_popularity_weight_def weight_of_simps)

text \<open>
  C5 (amended). The viewer-aggregate and interaction-matrix templates weigh every
  action by the table \<open>{view:1, click:2, like:3, share:4, comment:3.5, purchase:5}\<close>;
  the item-popularity template uses \<open>{1, 2, 3, 5, 4, 10}\<close> and the trending template
  \<open>{1, 2, 3, 5, 4, 0}\<close> for the same six actions.
\<close>

theorem C5_templates_weights:
  "user_behavior_score_weight (action_value a) = weight_of a
   \<and> interaction_score_weight (action_value a) = weight_of a
   \<and> map (content_popularity_weight \<circ> action_value) [VIEW, CLICK, LIKE, SHARE, COMMENT, PURCHASE]
       = [1, 2, 3, 5, 4, 10]
   \<and> map (trend_score_weight \<circ> action_value) [VIEW, CLICK, LIKE, SHARE, COMMENT, PURCHASE]
       = [1, 2, 3, 5, 4, 0]"
  by (cases a)
     (simp_all add: user_behavior_score_weight_def interaction_score_weight_def
        content_popularity_weight_def trend_score_weight_def weight_of_simps)


section \<open>Properties of candidate ranking\<close>

lemma py_sorted_desc_mset: "mset (py_sorted_desc key xs) = mset xs"
  by (simp add: py_sorted_desc_def)

lemma py_sorted_desc_set: "set (py_sorted_desc key xs) = set xs"
  by (simp add: py_sorted_desc_def)

lemma py_sorted_desc_sorted:
  "sorted_wrt (\<lambda>a b. key b \<le> key a) (py_sorted_desc key xs)"
proof -
  have "sorted (map key (sort_key key (rev xs)))" by simp
  then have "sorted_wrt (\<lambda>a b. key a \<le> key b) (sort_key key (rev xs))"
    by (simp add: sorted_map)
  then show ?thesis
    by (simp add: py_sorted_desc_def sorted_wrt_rev)
qed

lemma py_sorted_desc_stable:
  "filter (\<lambda>y. key y = k) (py_sorted_desc key xs) = filter (\<lambda>y. key y = k) xs"
proof -
  have "filter (\<lambda>y. key y = k) (sort_key key (rev xs)) = filter (\<lambda>y. key y = k) (rev xs)"
    by (rule sort_key_stable)
  then show ?thesis
    by (simp add: py_sorted_desc_def rev_filter [symmetric])
qed

lemma py_sorted_desc_const:
  assumes "\<And>x. x \<in> set xs \<Longrightarrow> key x = k"
  shows "py_sorted_desc key xs = xs"
proof -
  have "filter (\<lambda>y. key y = k) (py_sorted_desc key xs) = py_sorted_desc key xs"
    using assms by (intro filter_True) (metis py_sorted_desc_mset set_mset_mset)
  moreover have "filter (\<lambda>y. key y = k) xs = xs"
    using assms by (intro filter_True) simp
  ultimately show ?thesis using py_sorted_desc_stable [of key k xs] by simp
qed

lemma score_candidate_attach:
  "\<exists>s. score_candidate svc uf cf c = c\<lparr>ranking_score := Some s\<rparr>"
  by (auto simp: score_candidate_def try_score_candidate_def Let_def split: option.splits)

lemma map_score_candidate_attach:
  "\<exists>scores. length scores = length cs \<and>
     map (score_candidate svc uf cf) cs = map2 (\<lambda>c s. c\<lparr>ranking_score := Some s\<rparr>) cs scores"
proof (induction cs)
  case Nil
  then show ?case by simp
next
  case (Cons c cs)
  then obtain scores where sc: "length scores = length cs"
    "map (score_candidate svc uf cf) cs = map2 (\<lambda>c s. c\<lparr>ranking_score := Some s\<rparr>) cs scores"
    by blast
  obtain s where s: "score_candidate svc uf cf c = c\<lparr>ranking_score := Some s\<rparr>"
    using score_candidate_attach by blast
  show ?case
    by (rule exI [of _ "s # scores"]) (simp add: sc s)
qed

lemma map_zero_attach:
  "map (\<lambda>c. c\<lparr>ranking_score := Some 0\<rparr>) cs
     = map2 (\<lambda>c s. c\<lparr>ranking_score := Some s\<rparr>) cs (replicate (length cs) 0)"
  by (induction cs) simp_all

lemma rank_candidates_scored:
  "\<exists>scores. length scores = length candidates \<and>
     rank_candidates svc uid candidates context
       = py_sorted_desc ranking_key (map2 (\<lambda>c s. c\<lparr>ranking_score := Some s\<rparr>) candidates scores)"
proof (cases "candidates = []")
  case True
  then show ?thesis by (simp add: rank_candidates_def py_sorted_desc_def)
next
  case False
  show ?thesis
  proof (cases "context_features_of svc context")
    case (Inl e)
    let ?zs = "map (\<lambda>c. c\<lparr>ranking_score := Some 0\<rparr>) candidates"
    have "py_sorted_desc ranking_key ?zs = ?zs"
      by (rule py_sorted_desc_const [where k = 0]) (auto simp: ranking_key_def)
    then have "rank_candidates svc uid candidates context
        = py_sorted_desc ranking_key
            (map2 (\<lambda>c s. c\<lparr>ranking_score := Some s\<rparr>) candidates (replicate (length candidates) 0))"
      using False Inl by (simp add: rank_candidates_def map_zero_attach [symmetric])
    then show ?thesis
      by (intro exI [of _ "replicate (length candidates) 0"]) simp
  next
    case (Inr cf)
    obtain scores where "length scores = length candidates"
      "map (score_candidate svc (rank_get_user_features svc uid) cf) candidates
         = map2 (\<lambda>c s. c\<lparr>ranking_score := Some s\<rparr>) candidates scores"
      using map_score_candidate_attach by blast
    then show ?thesis
      using False Inr by (intro exI [of _ scores]) (simp add: rank_candidates_def)
  qed
qed

text \<open>
  C1 (amended). For every RANK request the returned sequence is non-increasing in
  \<open>rankingScore\<close>, and candidates with equal \<open>rankingScore\<close> keep the relative order
  they had in the request: for every score value, the output restricted to that value
  is the scored request restricted to it. Neither popularity nor the item id takes part
  in the order.
\<close>

theorem C1_sorted_stable:
  "\<exists>scores. length scores = length candidates \<and>
     sorted_wrt (\<lambda>a b. ranking_key b \<le> ranking_key a) (rank_candidates svc uid candidates context) \<and>
     (\<forall>k. filter (\<lambda>c. ranking_key c = k) (rank_candidates svc uid candidates context)
          = filter (\<lambda>c. ranking_key c = k)
              (map2 (\<lambda>c s. c\<lparr>ranking_score := Some s\<rparr>) candidates scores))"
proof -
  obtain scores where sc: "length scores = length candidates"
    "rank_candidates svc uid candidates context
       = py_sorted_desc ranking_key (map2 (\<lambda>c s. c\<lparr>ranking_score := Some s\<rparr>) candidates scores)"
    using rank_candidates_scored by blast
  show ?thesis
    by (rule exI [of _ scores]) (simp add: sc py_sorted_desc_sorted py_sorted_desc_stable)
qed

text \<open>
  C1 (as stated, refuted). Candidates A (popularity 5) and B (popularity 9), in this
  order, both scored 0.42: the response order is \<open>[A, B]\<close>, not \<open>[B, A]\<close>.
\<close>

theorem C1_counterexample:
  "map content_id
     (rank_candidates tie_service ''viewer''
        [(item ''A'')\<lparr>popularity_score := Some 5\<rparr>, (item ''B'')\<lparr>popularity_score := Some 9\<rparr>] None)
   = [Some ''A'', Some ''B'']
   \<and> map ranking_score
     (rank_candidates tie_service ''viewer''
        [(item ''A'')\<lparr>popularity_score := Some 5\<rparr>, (item ''B'')\<lparr>popularity_score := Some 9\<rparr>] None)
   = [Some 0.42, Some 0.42]"
  by (simp add: rank_candidates_def context_features_of_def tie_service_def score_candidate_def
      try_score_candidate_def predict_score_def py_sorted_desc_def ranking_key_def item_def)


lemma score_candidate_zero:
  assumes "content_id c = None \<or>
     (\<exists>cid e. content_id c = Some cid \<and>
        model_predict svc (dict_merge (dict_merge uf (rank_get_content_features svc cid)) cf) = Inl e)"
  shows "score_candidate svc uf cf c = c\<lparr>ranking_score := Some 0\<rparr>"
  using assms
  by (auto simp: score_candidate_def try_score_candidate_def predict_score_def Let_def)

text \<open>
  C6 (amended). The output of a RANK request is a permutation of the candidates of the
  request, each with a \<open>rankingScore\<close> attached, so that none is dropped or duplicated
  and the request always succeeds. A candidate without \<open>content_id\<close>, a candidate of a
  request whose context processing raises, and a candidate on whose features the model
  raises receive \<open>rankingScore\<close> 0.0. A candidate whose feature-store read raises is
  not given 0.0 for that reason: it is in the output with the score of the model on the
  viewer's features, the default content features and the context features (0.0 only
  if the model raises on these).
\<close>

theorem C6_same_candidates_failures_zero:
  "(\<exists>scores. length scores = length candidates \<and>
      mset (rank_candidates svc uid candidates context)
        = mset (map2 (\<lambda>c s. c\<lparr>ranking_score := Some s\<rparr>) candidates scores))
   \<and> (\<forall>c \<in> set candidates.
        (content_id c = None
         \<or> (\<exists>e. context_features_of svc context = Inl e)
         \<or> (\<exists>cid cf e. content_id c = Some cid \<and> context_features_of svc context = Inr cf \<and>
               model_predict svc
                 (dict_merge (dict_merge (rank_get_user_features svc uid)
                                (rank_get_content_features svc cid)) cf) = Inl e))
        \<longrightarrow> c\<lparr>ranking_score := Some 0\<rparr> \<in> set (rank_candidates svc uid candidates context))
   \<and> (\<forall>c \<in> set candidates. \<forall>cid cf e.
        content_id c = Some cid \<and> context_features_of svc context = Inr cf
        \<and> store_content svc cid = Inl e
        \<longrightarrow> c\<lparr>ranking_score :=
               Some (predict_score svc
                 (dict_merge (dict_merge (rank_get_user_features svc uid)
                                default_content_features) cf))\<rparr>
            \<in> set (rank_candidates svc uid candidates context))"
proof (intro conjI ballI impI allI)
  obtain scores where sc: "length scores = length candidates"
    "rank_candidates svc uid candidates context
       = py_sorted_desc ranking_key (map2 (\<lambda>c s. c\<lparr>ranking_score := Some s\<rparr>) candidates scores)"
    using rank_candidates_scored by blast
  show "\<exists>scores. length scores = length candidates \<and>
      mset (rank_candidates svc uid candidates context)
        = mset (map2 (\<lambda>c s. c\<lparr>ranking_score := Some s\<rparr>) candidates scores)"
    by (rule exI [of _ scores]) (simp add: sc py_sorted_desc_mset)
next
  fix c
  assume c: "c \<in> set candidates"
    and fail: "content_id c = None
         \<or> (\<exists>e. context_features_of svc context = Inl e)
         \<or> (\<exists>cid cf e. content_id c = Some cid \<and> context_features_of svc context = Inr cf \<and>
               model_predict svc
                 (dict_merge (dict_merge (rank_get_user_features svc uid)
                                (rank_get_content_features svc cid)) cf) = Inl e)"
  from c have ne: "candidates \<noteq> []" by auto
  show "c\<lparr>ranking_score := Some 0\<rparr> \<in> set (rank_candidates svc uid candidates context)"
  proof (cases "context_features_of svc context")
    case (Inl e)
    then show ?thesis using c ne by (auto simp: rank_candidates_def)
  next
    case (Inr cf)
    with fail have "score_candidate svc (rank_get_user_features svc uid) cf c
        = c\<lparr>ranking_score := Some 0\<rparr>"
      by (intro score_candidate_zero) auto
    then have "c\<lparr>ranking_score := Some 0\<rparr>
        \<in> set (map (score_candidate svc (rank_get_user_features svc uid) cf) candidates)"
      using c by force
    then show ?thesis
      using Inr ne
      by (simp add: rank_candidates_def py_sorted_desc_set)
  qed
next
  fix c cid cf e
  assume c: "c \<in> set candidates"
    and h: "content_id c = Some cid \<and> context_features_of svc context = Inr cf
        \<and> store_content svc cid = Inl e"
  from c have ne: "candidates \<noteq> []" by auto
  let ?s = "predict_score svc
      (dict_merge (dict_merge (rank_get_user_features svc uid) default_content_features) cf)"
  have "rank_get_content_features svc cid = default_content_features"
    using h by (simp add: rank_get_content_features_def)
  then have "score_candidate svc (rank_get_user_features svc uid) cf c
      = c\<lparr>ranking_score := Some ?s\<rparr>"
    using h by (simp add: score_candidate_def try_score_candidate_def)
  then have "c\<lparr>ranking_score := Some ?s\<rparr>
      \<in> set (map (score_candidate svc (rank_get_user_features svc uid) cf) candidates)"
    using c by force
  then show "c\<lparr>ranking_score := Some ?s\<rparr> \<in> set (rank_candidates svc uid candidates context)"
    using h ne by (simp add: rank_candidates_def py_sorted_desc_set)
qed

text \<open>
  C6 (as stated, refuted). The feature store raises on every read; the single candidate
  is scored on the default content features, whose hot score 0.5 the model returns,
  instead of receiving 0.0.
\<close>

theorem C6_counterexample:
  "store_content store_down_service ''c1'' = Inl StoreError
   \<and> map ranking_score (rank_candidates store_down_service ''viewer'' [item ''c1''] None)
       = [Some 0.5]"
  by (simp add: rank_candidates_def context_features_of_def store_down_service_def
      score_candidate_def try_score_candidate_def predict_score_def py_sorted_desc_def
      ranking_key_def item_def rank_get_user_features_def rank_get_content_features_def
      default_user_features_def default_content_features_def dict_merge_def hot_score_model_def)

text \<open>
  C6, witness: with a model that always raises, candidate \<open>c1\<close> of a two-candidate
  request appears in the output with score 0.0; with the store down, candidate \<open>c1\<close>
  of a two-candidate request appears in the output with the score 0.5 that the model
  gives on the default content features.
\<close>

theorem C6_witness:
  "item ''c1'' \<in> set [item ''c1'', item ''c2'']
   \<and> (\<exists>cid cf e. content_id (item ''c1'') = Some cid
         \<and> context_features_of model_down_service None = Inr cf
         \<and> model_predict model_down_service
              (dict_merge (dict_merge (rank_get_user_features model_down_service ''viewer'')
                   (rank_get_content_features model_down_service cid)) cf) = Inl e)
   \<and> (item ''c1'')\<lparr>ranking_score := Some 0\<rparr>
        \<in> set (rank_candidates model_down_service ''viewer'' [item ''c1'', item ''c2''] None)
   \<and> content_id (item ''c1'') = Some ''c1''
   \<and> context_features_of store_down_service None = Inr []
   \<and> store_content store_down_service ''c1'' = Inl StoreError
   \<and> predict_score store_down_service
        (dict_merge (dict_merge (rank_get_user_features store_down_service ''viewer'')
                       default_content_features) []) = 0.5
   \<and> (item ''c1'')\<lparr>ranking_score := Some 0.5\<rparr>
        \<in> set (rank_candidates store_down_service ''viewer'' [item ''c1'', item ''c2''] None)"
proof -
  have h: "\<exists>cid cf e. content_id (item ''c1'') = Some cid
         \<and> context_features_of model_down_service None = Inr cf
         \<and> model_predict model_down_service
              (dict_merge (dict_merge (rank_get_user_features model_down_service ''viewer'')
                   (rank_get_content_features model_down_service cid)) cf) = Inl e"
    by (simp add: item_def context_features_of_def model_down_service_def)
  have s: "content_id (item ''c1'') = Some ''c1''
      \<and> context_features_of store_down_service None = Inr []
      \<and> store_content store_down_service ''c1'' = Inl StoreError"
    by (simp add: item_def context_features_of_def store_down_service_def)
  have p: "predict_score store_down_service
        (dict_merge (dict_merge (rank_get_user_features store_down_service ''viewer'')
                       default_content_features) []) = 0.5"
    by (simp add: predict_score_def store_down_service_def rank_get_user_features_def
        default_user_features_def default_content_features_def dict_merge_def hot_score_model_def)
  have m: "item ''c1'' \<in> set [item ''c1'', item ''c2'']" by simp
  note a = C6_same_candidates_failures_zero
    [of "[item ''c1'', item ''c2'']" model_down_service "''viewer''" None]
  note b = C6_same_candidates_failures_zero
    [of "[item ''c1'', item ''c2'']" store_down_service "''viewer''" None]
  from a h m have z: "(item ''c1'')\<lparr>ranking_score := Some 0\<rparr>
        \<in> set (rank_candidates model_down_service ''viewer'' [item ''c1'', item ''c2''] None)"
    by blast
  from b have "\<forall>c \<in> set [item ''c1'', item ''c2'']. \<forall>cid cf e.
        content_id c = Some cid \<and> context_features_of store_down_service None = Inr cf
        \<and> store_content store_down_service cid = Inl e
        \<longrightarrow> c\<lparr>ranking_score :=
               Some (predict_score store_down_service
                 (dict_merge (dict_merge (rank_get_user_features store_down_service ''viewer'')
                                default_content_features) cf))\<rparr>
            \<in> set (rank_candidates store_down_service ''viewer'' [item ''c1'', item ''c2''] None)"
    by blast
  with m s have "(item ''c1'')\<lparr>ranking_score :=
               Some (predict_score store_down_service
                 (dict_merge (dict_merge (rank_get_user_features store_down_service ''viewer'')
                                default_content_features) []))\<rparr>
            \<in> set (rank_candidates store_down_service ''viewer'' [item ''c1'', item ''c2''] None)"
    by blast
  then have d: "(item ''c1'')\<lparr>ranking_score := Some 0.5\<rparr>
        \<in> set (rank_candidates store_down_service ''viewer'' [item ''c1'', item ''c2''] None)"
    unfolding p .
  from h z s p d m show ?thesis by blast
qed


section \<open>Properties of the request batcher\<close>

lemma set_results_Nil [simp]: "set_results [] ss = []"
  by (cases ss) simp_all

lemma set_results_length: "length (set_results rs ss) = length rs"
  by (induction rs ss rule: set_results.induct) simp_all

lemma set_results_nth:
  "i < length rs \<Longrightarrow> i < length ss \<Longrightarrow> set_results rs ss ! i = set_result (rs ! i) (ss ! i)"
proof (induction rs ss arbitrary: i rule: set_results.induct)
  case (1 r rs s ss)
  then show ?case by (cases i) simp_all
qed simp_all

lemma set_results_features: "map features (set_results rs ss) = map features rs"
  by (induction rs ss rule: set_results.induct) (simp_all add: set_result_def)

lemma process_batch_scores:
  assumes "model srv = Some m" and "m (map features batch) = Inr scores"
  shows "fst (process_batch srv batch) = set_results batch scores"
  using assms by (simp add: process_batch_def predict_batch_sync_def)

lemma process_batch_failed:
  assumes "model srv = None \<or> (\<exists>m e. model srv = Some m \<and> m (map features batch) = Inl e)"
  shows "fst (process_batch srv batch) = map (\<lambda>req. set_result req 0) batch"
proof -
  have z: "set_results batch (replicate (length batch) 0) = map (\<lambda>req. set_result req 0) batch"
    by (induction batch) simp_all
  from assms show ?thesis
    by (auto simp: process_batch_def predict_batch_sync_def z)
qed

lemma enqueue_all_pending:
  "pending_requests (foldl enqueue srv xs)
     = pending_requests srv @ map (\<lambda>f. \<lparr>features = f, result = None, event = False\<rparr>) xs"
  by (induction xs arbitrary: srv) (simp_all add: enqueue_def)

lemma process_batch_Nil: "fst (process_batch s []) = []"
  by (simp add: process_batch_def predict_batch_sync_def split: option.splits sum.splits)

lemma slice_to_take: "\<exists>n. slice_to xs k = take n xs"
  by (auto simp: slice_to_def)

lemma batch_processor_step_prefix:
  assumes "batch_processor_step srv = (batch, srv')"
  shows "\<exists>n s. batch = fst (process_batch s (take n (pending_requests srv))) \<and> model s = model srv"
proof -
  let ?k = "min (int (length (pending_requests srv))) (max_batch_size srv)"
  let ?srv1 = "srv\<lparr>pending_requests := slice_from (pending_requests srv) ?k\<rparr>"
  obtain n where n: "slice_to (pending_requests srv) ?k = take n (pending_requests srv)"
    using slice_to_take by blast
  show ?thesis
  proof (cases "pending_requests srv \<noteq> [] \<and> slice_to (pending_requests srv) ?k \<noteq> []")
    case True
    then have "batch = fst (process_batch ?srv1 (take n (pending_requests srv)))"
      using assms n by (simp add: batch_processor_step_def Let_def)
    then show ?thesis by (intro exI [of _ n] exI [of _ ?srv1]) simp
  next
    case False
    then have "batch = []"
      using assms by (auto simp: batch_processor_step_def Let_def split: if_splits)
    then have "batch = fst (process_batch srv (take 0 (pending_requests srv)))"
      by (simp add: process_batch_Nil)
    then show ?thesis by blast
  qed
qed

text \<open>
  C2 (amended). For every batch sealed by the batch processor, the \<open>i\<close>-th request of
  the batch is the \<open>i\<close>-th request of the queue (the order of submission), and the
  \<open>i\<close>-th coordinate of the scores the model returned for the batch is stored in its
  result slot. Its submitter receives that coordinate if the result arrives within its
  wait of one second, and 0.0 if the wait runs out first.
\<close>

theorem C2_batch_order_preserved:
  assumes "model srv = Some m"
    and "batch_processor_step srv = (batch, srv')"
    and "m (map features batch) = Inr ys"
    and "i < length batch" and "i < length ys"
  shows "features (batch ! i) = features (pending_requests srv ! i)
         \<and> result (batch ! i) = Some (ys ! i)
         \<and> get_result (batch ! i) timed_out = Some (if timed_out then 0 else ys ! i)"
proof -
  obtain n s where b: "batch = fst (process_batch s (take n (pending_requests srv)))"
    and ms: "model s = Some m"
    using batch_processor_step_prefix [OF assms(2)] assms(1) by auto
  let ?sealed = "take n (pending_requests srv)"
  have f: "map features batch = map features ?sealed"
    using b ms
    by (auto simp: process_batch_def predict_batch_sync_def set_results_features
        set_result_def comp_def split: sum.splits)
  then have "m (map features ?sealed) = Inr ys" using assms(3) by simp
  then have bs: "batch = set_results ?sealed ys"
    using b ms by (simp add: process_batch_scores)
  have len: "length batch = length ?sealed"
    using f by (metis length_map)
  then have i: "i < length ?sealed" using assms(4) by simp
  then have "batch ! i = set_result (?sealed ! i) (ys ! i)"
    using bs assms(5) by (simp add: set_results_nth)
  moreover have "?sealed ! i = pending_requests srv ! i" using i by simp
  ultimately show ?thesis by (simp add: set_result_def get_result_def)
qed

text \<open>
  C2 (as stated, refuted). Two submissions are sealed together and the model returns
  the scores \<open>[0, 1]\<close>; the second submitter, whose wait has run out, receives 0.0 and
  not the second coordinate 1.
\<close>

theorem C2_counterexample:
  "count_model (map features (fst (batch_processor_step two_pending))) = Inr [0, 1]
   \<and> get_result (fst (batch_processor_step two_pending) ! 1) True = Some 0"
  by (simp add: two_pending_def batch_processor_step_def enqueue_def idle_server_def Let_def
      slice_to_def slice_from_def process_batch_def predict_batch_sync_def count_model_def
      set_result_def get_result_def)

text \<open>
  C2, witness: two submissions, sealed together; the second submitter reads the second
  score when its wait has not run out.
\<close>

theorem C2_witness:
  "model two_pending = Some count_model
   \<and> count_model (map features (fst (batch_processor_step two_pending))) = Inr [0, 1]
   \<and> 1 < length (fst (batch_processor_step two_pending))
   \<and> features (fst (batch_processor_step two_pending) ! 1)
       = features (pending_requests two_pending ! 1)
   \<and> result (fst (batch_processor_step two_pending) ! 1) = Some 1
   \<and> get_result (fst (batch_processor_step two_pending) ! 1) False = Some 1"
proof -
  have st: "fst (batch_processor_step two_pending)
    = [\<lparr>features = [], result = Some 0, event = True\<rparr>,
       \<lparr>features = [(''user_age'', FNum 25)], result = Some 1, event = True\<rparr>]"
    by (simp add: two_pending_def batch_processor_step_def enqueue_def idle_server_def Let_def
        slice_to_def slice_from_def process_batch_def predict_batch_sync_def count_model_def
        set_result_def)
  have h1: "model two_pending = Some count_model"
    by (simp add: two_pending_def enqueue_def idle_server_def)
  have h2: "batch_processor_step two_pending
      = (fst (batch_processor_step two_pending), snd (batch_processor_step two_pending))"
    by simp
  have h3: "count_model (map features (fst (batch_processor_step two_pending))) = Inr [0, 1]"
    by (simp add: st count_model_def)
  have h4: "1 < length (fst (batch_processor_step two_pending))" by (simp add: st)
  have h5: "1 < length [0, 1 :: real]" by simp
  from C2_batch_order_preserved [OF h1 h2 h3 h4 h5, of False] h1 h3 h4 show ?thesis by simp
qed

text \<open>
  C3 (as stated, refuted). The model raises on a batch of two submissions; both
  submitters receive the numeric score 0.0 and no error.
\<close>

theorem C3_counterexample:
  "map (\<lambda>req. get_result req False)
     (fst (batch_processor_step (two_pending_failing)))
   = [Some 0, Some 0]"
  by (simp add: two_pending_failing_def batch_processor_step_def enqueue_def failing_server_def Let_def slice_to_def
      slice_from_def process_batch_def predict_batch_sync_def set_result_def get_result_def)

text \<open>
  C3 (amended). For every sealed batch, if the model raises on it (or no model is
  loaded), every submitter whose request is in that batch receives the numeric score
  0.0, whether or not its wait has run out; no error kind is reported.
\<close>

theorem C3_failed_batch_scores_zero:
  assumes "model srv = None \<or> (\<exists>m e. model srv = Some m \<and> m (map features batch) = Inl e)"
    and "batch_processor_step srv = (batch, srv')"
    and "req \<in> set batch"
  shows "get_result req timed_out = Some 0"
proof -
  obtain n s where b: "batch = fst (process_batch s (take n (pending_requests srv)))"
    and ms: "model s = model srv"
    using batch_processor_step_prefix [OF assms(2)] by auto
  let ?sealed = "take n (pending_requests srv)"
  have f: "map features batch = map features ?sealed"
    using b
    by (auto simp: process_batch_def predict_batch_sync_def set_results_features
        set_result_def comp_def split: sum.splits option.splits)
  with assms(1) ms have "model s = None \<or> (\<exists>m e. model s = Some m \<and> m (map features ?sealed) = Inl e)"
    by auto
  then have "batch = map (\<lambda>req. set_result req 0) ?sealed"
    using b by (simp add: process_batch_failed)
  with assms(3) show ?thesis
    by (auto simp: get_result_def set_result_def)
qed

text \<open>C3, witness: the failing model on the two-request queue.\<close>

theorem C3_witness:
  "(\<exists>m e. model two_pending_failing = Some m
       \<and> m (map features (fst (batch_processor_step two_pending_failing))) = Inl e)
   \<and> \<lparr>features = [], result = Some 0, event = True\<rparr>
        \<in> set (fst (batch_processor_step two_pending_failing))
   \<and> get_result \<lparr>features = [], result = Some 0, event = True\<rparr> True = Some 0"
proof -
  have st: "fst (batch_processor_step two_pending_failing)
    = [\<lparr>features = [], result = Some 0, event = True\<rparr>,
       \<lparr>features = [(''user_age'', FNum 25)], result = Some 0, event = True\<rparr>]"
    by (simp add: two_pending_failing_def batch_processor_step_def enqueue_def failing_server_def
        Let_def slice_to_def slice_from_def process_batch_def predict_batch_sync_def set_result_def)
  have h1: "model two_pending_failing = None \<or> (\<exists>m e. model two_pending_failing = Some m
       \<and> m (map features (fst (batch_processor_step two_pending_failing))) = Inl e)"
    by (simp add: two_pending_failing_def enqueue_def failing_server_def)
  have h2: "batch_processor_step two_pending_failing
      = (fst (batch_processor_step two_pending_failing), snd (batch_processor_step two_pending_failing))"
    by simp
  have h3: "\<lparr>features = [], result = Some 0, event = True\<rparr>
        \<in> set (fst (batch_processor_step two_pending_failing))"
    by (simp add: st)
  have m: "model two_pending_failing \<noteq> None"
    by (simp add: two_pending_failing_def enqueue_def failing_server_def)
  from C3_failed_batch_scores_zero [OF h1 h2 h3, of True] h1 h3 m show ?thesis by simp
qed

section \<open>Properties of the fusion and rerank service\<close>

lemma get_or_simps [simp]: "get_or None d = d" "get_or (Some x) d = x"
  by (simp_all add: get_or_def)

text \<open>
  C9. Whenever at most \<open>target_size\<close> items survive deduplication and the policy
  filter, \<^verbatim>\<open>_ensure_diversity\<close> returns the list it was given: the same items in
  the same order. The greedy selection loop is entered only for a longer list.
\<close>

theorem C9_small_list_unchanged:
  "int (length results) \<le> target_size \<Longrightarrow> ensure_diversity svc results target_size = Some results"
  by (simp add: ensure_diversity_def)

text \<open>
  C10. In the policy filter an item without \<open>quality_score\<close> is judged as one with
  quality 0.8, an item without \<open>user_rating\<close> as one with rating 5.0 and an item
  without \<open>review_status\<close> as one with status \<open>pending\<close>. Hence under the default
  configuration an item lacking both \<open>quality_score\<close> and \<open>user_rating\<close> is rejected
  neither for low quality nor for low rating, and an item lacking \<open>review_status\<close> is
  rejected whenever review is required.
\<close>

theorem C10_missing_fields_defaults:
  "(quality_score c = None \<longrightarrow>
      rejection svc t uid ctx c = rejection svc t uid ctx (c\<lparr>quality_score := Some 0.8\<rparr>))
   \<and> (user_rating c = None \<longrightarrow>
      rejection svc t uid ctx c = rejection svc t uid ctx (c\<lparr>user_rating := Some 5.0\<rparr>))
   \<and> (review_status c = None \<longrightarrow>
      rejection svc t uid ctx c = rejection svc t uid ctx (c\<lparr>review_status := Some ''pending''\<rparr>))
   \<and> (quality_score c = None \<and> user_rating c = None \<longrightarrow>
      rejection default_config t uid ctx c \<noteq> Some low_quality
      \<and> rejection default_config t uid ctx c \<noteq> Some low_rating)
   \<and> (review_status c = None \<and> get_or (require_content_review (business_rules svc)) True \<longrightarrow>
      rejection svc t uid ctx c \<noteq> None)"
proof (intro conjI impI)
  assume "quality_score c = None"
  then show "rejection svc t uid ctx c = rejection svc t uid ctx (c\<lparr>quality_score := Some 0.8\<rparr>)"
    by (simp add: rejection_def check_user_preferences_def Let_def)
next
  assume "user_rating c = None"
  then show "rejection svc t uid ctx c = rejection svc t uid ctx (c\<lparr>user_rating := Some 5.0\<rparr>)"
    by (simp add: rejection_def check_user_preferences_def Let_def)
next
  assume "review_status c = None"
  then show "rejection svc t uid ctx c
      = rejection svc t uid ctx (c\<lparr>review_status := Some ''pending''\<rparr>)"
    by (simp add: rejection_def check_user_preferences_def Let_def)
next
  assume "quality_score c = None \<and> user_rating c = None"
  then show "rejection default_config t uid ctx c \<noteq> Some low_quality"
    by (simp add: rejection_def default_config_def Let_def)
next
  assume "quality_score c = None \<and> user_rating c = None"
  then show "rejection default_config t uid ctx c \<noteq> Some low_rating"
    by (simp add: rejection_def default_config_def Let_def)
next
  assume "review_status c = None \<and> get_or (require_content_review (business_rules svc)) True"
  then show "rejection svc t uid ctx c \<noteq> None"
    by (simp add: rejection_def Let_def)
qed

























lemma fuse_near_duplicates:
  "map_sum id (map (\<lambda>c. (content_id c, fusion_score c)))
     (fuse_algorithm_results two_algorithms near_duplicate_results)
   = Inr [(Some ''a'', Some 0.95), (Some ''c'', Some 0.75), (Some ''b'', Some 0.45)]"
  by (simp add: fuse_algorithm_results_def two_algorithms_def default_config_def
      near_duplicate_results_def article_def item_def record_content_def original_score_def
      fuse_content_def py_sorted_desc_def fusion_key_def Let_def)

lemma sim_a_c:
  "calculate_text_similarity (str_lower ''Deep Learning Basics'') (str_lower ''deep learning basics'') = 1"
  by code_simp

lemma sim_a_b:
  "calculate_text_similarity (str_lower ''Deep Learning Basics'') (str_lower ''Cooking Tips'') = 0"
  by code_simp






lemma map_of_dict_update:
  "map_of (dict_update k v d) k' = (if k' = k then Some v else map_of d k')"
  by (induction d) auto

lemma record_content_other:
  "X \<noteq> cid \<Longrightarrow> map_of (snd (record_content n w idx cid c st)) X = map_of (snd st) X"
  by (cases st) (simp add: record_content_def Let_def map_of_dict_update)

lemma record_content_all_mono: "set (fst st) \<subseteq> set (fst (record_content n w idx cid c st))"
  by (cases st) (auto simp: record_content_def Let_def)

lemma record_content_ids:
  assumes "\<forall>(k, d) \<in> set (fst st). content_id d = Some k" and "content_id c = Some cid"
  shows "\<forall>(k, d) \<in> set (fst (record_content n w idx cid c st)). content_id d = Some k"
  using assms by (cases st) (auto simp: record_content_def Let_def)

lemma collect_results_other:
  assumes "collect_results n w idx cs st = Inr st'" and "Some X \<notin> content_id ` set cs"
  shows "map_of (snd st') X = map_of (snd st) X"
  using assms
proof (induction cs arbitrary: idx st)
  case Nil
  then show ?case by simp
next
  case (Cons c cs)
  from Cons.prems(1) obtain cid where cid: "content_id c = Some cid"
    by (cases "content_id c") auto
  then have run: "collect_results n w (Suc idx) cs (record_content n w idx cid c st) = Inr st'"
    using Cons.prems(1) by simp
  have "X \<noteq> cid" using Cons.prems(2) cid by auto
  then have "map_of (snd (record_content n w idx cid c st)) X = map_of (snd st) X"
    by (rule record_content_other)
  moreover have "map_of (snd st') X = map_of (snd (record_content n w idx cid c st)) X"
    using Cons.IH [OF run] Cons.prems(2) by simp
  ultimately show ?case by simp
qed

lemma collect_results_all_mono:
  assumes "collect_results n w idx cs st = Inr st'"
  shows "set (fst st) \<subseteq> set (fst st')"
  using assms
proof (induction cs arbitrary: idx st)
  case Nil
  then show ?case by simp
next
  case (Cons c cs)
  from Cons.prems(1) obtain cid where cid: "content_id c = Some cid"
    by (cases "content_id c") auto
  then have run: "collect_results n w (Suc idx) cs (record_content n w idx cid c st) = Inr st'"
    using Cons.prems(1) by simp
  show ?case
    using Cons.IH [OF run] record_content_all_mono [of st n w idx cid c] by blast
qed

lemma collect_results_ids:
  assumes "collect_results n w idx cs st = Inr st'"
    and "\<forall>(k, d) \<in> set (fst st). content_id d = Some k"
  shows "\<forall>(k, d) \<in> set (fst st'). content_id d = Some k"
  using assms
proof (induction cs arbitrary: idx st)
  case Nil
  then show ?case by simp
next
  case (Cons c cs)
  from Cons.prems(1) obtain cid where cid: "content_id c = Some cid"
    by (cases "content_id c") auto
  then have run: "collect_results n w (Suc idx) cs (record_content n w idx cid c st) = Inr st'"
    using Cons.prems(1) by simp
  show ?case
    by (rule Cons.IH [OF run]) (rule record_content_ids [OF Cons.prems(2) cid])
qed

lemma fuse_contents_set:
  assumes "fuse_contents svc scores all = Inr fused"
  shows "set fused = {fc. \<exists>cid c. (cid, c) \<in> set all
            \<and> fuse_content svc (get_or (map_of scores cid) []) c = Inr fc}"
  using assms
proof (induction all arbitrary: fused)
  case Nil
  then show ?case by simp
next
  case (Cons p all)
  obtain cid c where p: "p = (cid, c)" by (cases p)
  from Cons.prems p obtain fc fcs where
    fc: "fuse_content svc (get_or (map_of scores cid) []) c = Inr fc"
    and fcs: "fuse_contents svc scores all = Inr fcs" and fused: "fused = fc # fcs"
    by (auto split: sum.splits)
  show ?case
    unfolding fused p using Cons.IH [OF fcs] fc by auto
qed

lemma fuse_content_id:
  "fuse_content svc sc c = Inr fc \<Longrightarrow> content_id fc = content_id c"
  by (auto simp: fuse_content_def Let_def split: if_splits)


lemma fused_items:
  assumes "fuse_algorithm_results svc ar = Inr fused"
    and "collect_algorithms svc ar ([], []) = Inr (all, scores)"
    and "\<forall>(k, d) \<in> set all. content_id d = Some k"
    and "e \<in> set fused" and "content_id e = Some X"
  shows "\<exists>c. fuse_content svc (get_or (map_of scores X) []) c = Inr e"
proof -
  from assms(1,2) obtain fc where fc: "fuse_contents svc scores all = Inr fc"
    and fused: "fused = py_sorted_desc fusion_key fc"
    by (auto simp: fuse_algorithm_results_def split: sum.splits)
  have "e \<in> set fc" using assms(4) fused by (simp add: py_sorted_desc_def)
  then obtain cid c where c: "(cid, c) \<in> set all"
    "fuse_content svc (get_or (map_of scores cid) []) c = Inr e"
    using fuse_contents_set [OF fc] by auto
  have "content_id c = Some cid" using assms(3) c(1) by auto
  then have "cid = X" using fuse_content_id [OF c(2)] assms(5) by simp
  then show ?thesis using c(2) by blast
qed

lemma fused_item_exists:
  assumes "fuse_algorithm_results svc ar = Inr fused"
    and "collect_algorithms svc ar ([], []) = Inr (all, scores)"
    and "(X, x) \<in> set all" and "content_id x = Some X"
  shows "\<exists>e \<in> set fused. content_id e = Some X"
proof -
  from assms(1,2) obtain fc where fc: "fuse_contents svc scores all = Inr fc"
    and fused: "fused = py_sorted_desc fusion_key fc"
    by (auto simp: fuse_algorithm_results_def split: sum.splits)
  have "\<exists>e. fuse_content svc (get_or (map_of scores X) []) x = Inr e"
    using fc assms(3)
  proof (induction all arbitrary: fc)
    case Nil
    then show ?case by simp
  next
    case (Cons p all)
    then show ?case by (cases p) (auto split: sum.splits)
  qed
  then obtain e where e: "fuse_content svc (get_or (map_of scores X) []) x = Inr e" by blast
  then have "e \<in> set fc" using fuse_contents_set [OF fc] assms(3) by auto
  moreover have "content_id e = Some X" using fuse_content_id [OF e] assms(4) by simp
  ultimately show ?thesis using fused by (auto simp: py_sorted_desc_def)
qed

lemma only_first_algorithm:
  assumes w: "algorithm_weights svc = [(a1, 1/2), (a2, 1/2)]" "a1 \<noteq> a2"
    and run: "fuse_algorithm_results svc [(a1, x # r1), (a2, r2)] = Inr fused"
    and x: "content_id x = Some X" "original_score x = 0.8"
    and fresh: "Some X \<notin> content_id ` set (r1 @ r2)"
  shows "(\<exists>e \<in> set fused. content_id e = Some X)
    \<and> (\<forall>e \<in> set fused. content_id e = Some X \<longrightarrow>
          fusion_score e = Some (0.8 + 1 / 2 * 0.1) \<and> algorithm_coverage e = Some 1)"
proof -
  let ?info = "\<lparr>si_score = 0.8, si_weight = 1 / 2, si_position = 0\<rparr>"
  let ?st1 = "([(X, x)], [(X, [(a1, ?info)])])"
  have st1: "record_content a1 (1 / 2) 0 X x ([], []) = ?st1"
    by (simp add: record_content_def x)
  from run obtain all scores where coll:
    "collect_algorithms svc [(a1, x # r1), (a2, r2)] ([], []) = Inr (all, scores)"
    by (auto simp: fuse_algorithm_results_def split: sum.splits)
  then obtain st2 where st2: "collect_results a1 (1 / 2) (Suc 0) r1 ?st1 = Inr st2"
    and st3: "collect_results a2 (1 / 2) 0 r2 st2 = Inr (all, scores)"
    using w x st1 by (auto split: sum.splits)
  have f1: "Some X \<notin> content_id ` set r1" and f2: "Some X \<notin> content_id ` set r2"
    using fresh by auto
  have "map_of (snd (all, scores)) X = map_of (snd st2) X"
    by (rule collect_results_other [OF st3 f2])
  also have "\<dots> = map_of (snd ?st1) X"
    by (rule collect_results_other [OF st2 f1])
  finally have sc: "map_of scores X = Some [(a1, ?info)]" by simp
  have "(X, x) \<in> set (fst ?st1)" by simp
  then have mem: "(X, x) \<in> set all"
    using collect_results_all_mono [OF st2] collect_results_all_mono [OF st3] by auto
  have "\<forall>(k, d) \<in> set (fst ?st1). content_id d = Some k" using x by simp
  then have "\<forall>(k, d) \<in> set (fst st2). content_id d = Some k"
    by (rule collect_results_ids [OF st2])
  then have ids: "\<forall>(k, d) \<in> set all. content_id d = Some k"
    using collect_results_ids [OF st3] by simp
  have ex: "\<exists>e \<in> set fused. content_id e = Some X"
    by (rule fused_item_exists [OF run coll mem x(1)])
  have "fusion_score e = Some (0.8 + 1 / 2 * 0.1) \<and> algorithm_coverage e = Some 1"
    if e1: "e \<in> set fused" and e2: "content_id e = Some X" for e
  proof -
    obtain c where "fuse_content svc (get_or (map_of scores X) []) c = Inr e"
      using fused_items [OF run coll ids e1 e2] by blast
    then show ?thesis
      by (auto simp: sc fuse_content_def w Let_def)
  qed
  with ex show ?thesis by blast
qed

lemma both_algorithms:
  assumes w: "algorithm_weights svc = [(a1, 1/2), (a2, 1/2)]" "a1 \<noteq> a2"
    and run: "fuse_algorithm_results svc [(a1, y1 # s1), (a2, y2 # s2)] = Inr fused"
    and y: "content_id y1 = Some Y" "original_score y1 = 0.8"
      "content_id y2 = Some Y" "original_score y2 = 0.8"
    and fresh: "Some Y \<notin> content_id ` set (s1 @ s2)"
  shows "(\<exists>e \<in> set fused. content_id e = Some Y)
    \<and> (\<forall>e \<in> set fused. content_id e = Some Y \<longrightarrow>
          fusion_score e = Some (0.8 + 2 / 2 * 0.1) \<and> algorithm_coverage e = Some 2)"
proof -
  let ?info = "\<lparr>si_score = 0.8, si_weight = 1 / 2, si_position = 0\<rparr>"
  let ?st1 = "([(Y, y1)], [(Y, [(a1, ?info)])])"
  have st1: "record_content a1 (1 / 2) 0 Y y1 ([], []) = ?st1"
    by (simp add: record_content_def y)
  from run obtain all scores where coll:
    "collect_algorithms svc [(a1, y1 # s1), (a2, y2 # s2)] ([], []) = Inr (all, scores)"
    by (auto simp: fuse_algorithm_results_def split: sum.splits)
  then obtain st2 where st2: "collect_results a1 (1 / 2) (Suc 0) s1 ?st1 = Inr st2"
    and st3: "collect_results a2 (1 / 2) (Suc 0) s2 (record_content a2 (1 / 2) 0 Y y2 st2)
        = Inr (all, scores)"
    using w y st1 by (auto split: sum.splits)
  have f1: "Some Y \<notin> content_id ` set s1" and f2: "Some Y \<notin> content_id ` set s2"
    using fresh by auto
  have s2: "map_of (snd st2) Y = Some [(a1, ?info)]"
    using collect_results_other [OF st2 f1] by simp
  have "map_of (snd (all, scores)) Y = map_of (snd (record_content a2 (1 / 2) 0 Y y2 st2)) Y"
    by (rule collect_results_other [OF st3 f2])
  also have "\<dots> = Some [(a1, ?info), (a2, ?info)]"
    using s2 w(2) by (cases st2) (simp add: record_content_def Let_def map_of_dict_update y)
  finally have sc: "map_of scores Y = Some [(a1, ?info), (a2, ?info)]" by simp
  have "(Y, y1) \<in> set (fst ?st1)" by simp
  then have "(Y, y1) \<in> set (fst st2)" using collect_results_all_mono [OF st2] by auto
  then have "(Y, y1) \<in> set (fst (record_content a2 (1 / 2) 0 Y y2 st2))"
    using record_content_all_mono by blast
  then have mem: "(Y, y1) \<in> set all"
    using collect_results_all_mono [OF st3] by auto
  have "\<forall>(k, d) \<in> set (fst ?st1). content_id d = Some k" using y by simp
  then have "\<forall>(k, d) \<in> set (fst st2). content_id d = Some k"
    by (rule collect_results_ids [OF st2])
  then have "\<forall>(k, d) \<in> set (fst (record_content a2 (1 / 2) 0 Y y2 st2)). content_id d = Some k"
    using y(3) by (rule record_content_ids)
  then have ids: "\<forall>(k, d) \<in> set all. content_id d = Some k"
    using collect_results_ids [OF st3] by simp
  have ex: "\<exists>e \<in> set fused. content_id e = Some Y"
    by (rule fused_item_exists [OF run coll mem y(1)])
  have "fusion_score e = Some (0.8 + 2 / 2 * 0.1) \<and> algorithm_coverage e = Some 2"
    if e1: "e \<in> set fused" and e2: "content_id e = Some Y" for e
  proof -
    obtain c where "fuse_content svc (get_or (map_of scores Y) []) c = Inr e"
      using fused_items [OF run coll ids e1 e2] by blast
    then show ?thesis
      by (auto simp: sc fuse_content_def w Let_def)
  qed
  with ex show ?thesis by blast
qed


text \<open>
  C8 (amended). Two algorithms \<open>a1\<close> and \<open>a2\<close> are configured with weight 0.5 each.
  In one request item \<open>X\<close> is produced only by \<open>a1\<close>, at rank 1 with raw score 0.8;
  in another item \<open>Y\<close> is produced by both, at rank 1 with raw score 0.8 (both cannot
  hold rank 1 of \<open>a1\<close> in the same request). Whatever else the lists hold, the fused
  results contain \<open>X\<close> and \<open>Y\<close>, each is produced by 1 resp. 2 of the 2 configured
  algorithms, and in exact arithmetic the fusion scores are \<open>0.8 + 1/2 \<cdot> 0.1\<close> and
  \<open>0.8 + 2/2 \<cdot> 0.1\<close>: they differ by 0.05, which is the difference of the coverage
  bonuses.
\<close>

theorem C8_coverage_bonus_difference:
  assumes "algorithm_weights svc = [(a1, 1/2), (a2, 1/2)]" and "a1 \<noteq> a2"
    and "fuse_algorithm_results svc [(a1, x # r1), (a2, r2)] = Inr fused_x"
    and "content_id x = Some X" and "original_score x = 0.8"
    and "Some X \<notin> content_id ` set (r1 @ r2)"
    and "fuse_algorithm_results svc [(a1, y1 # s1), (a2, y2 # s2)] = Inr fused_y"
    and "content_id y1 = Some Y" and "original_score y1 = 0.8"
    and "content_id y2 = Some Y" and "original_score y2 = 0.8"
    and "Some Y \<notin> content_id ` set (s1 @ s2)"
  shows "(\<exists>ex \<in> set fused_x. content_id ex = Some X)
    \<and> (\<exists>ey \<in> set fused_y. content_id ey = Some Y)
    \<and> (\<forall>ex \<in> set fused_x. \<forall>ey \<in> set fused_y.
          content_id ex = Some X \<and> content_id ey = Some Y \<longrightarrow>
            fusion_key ey - fusion_key ex = 0.05
            \<and> fusion_key ex = 0.8 + 1 / 2 * 0.1 \<and> fusion_key ey = 0.8 + 2 / 2 * 0.1
            \<and> algorithm_coverage ex = Some 1 \<and> algorithm_coverage ey = Some 2)"
proof -
  note fx = only_first_algorithm [OF assms(1-6)]
  note fy = both_algorithms [OF assms(1,2) assms(7-12)]
  have "fusion_key ey - fusion_key ex = 0.05
            \<and> fusion_key ex = 0.8 + 1 / 2 * 0.1 \<and> fusion_key ey = 0.8 + 2 / 2 * 0.1
            \<and> algorithm_coverage ex = Some 1 \<and> algorithm_coverage ey = Some 2"
    if "ex \<in> set fused_x" "ey \<in> set fused_y" "content_id ex = Some X" "content_id ey = Some Y"
    for ex ey
  proof -
    have "fusion_score ex = Some (0.8 + 1 / 2 * 0.1)" "algorithm_coverage ex = Some 1"
      using fx that(1,3) by auto
    moreover have "fusion_score ey = Some (0.8 + 2 / 2 * 0.1)" "algorithm_coverage ey = Some 2"
      using fy that(2,4) by auto
    ultimately show ?thesis by (simp add: fusion_key_def)
  qed
  with fx fy show ?thesis by blast
qed

text \<open>
  C8, witness: two concrete requests with a third item \<open>z\<close> in the lists.
\<close>

theorem C8_witness:
  "\<exists>fx fy ex ey.
     fuse_algorithm_results two_algorithms only_first_results = Inr fx
     \<and> fuse_algorithm_results two_algorithms both_results = Inr fy
     \<and> ex \<in> set fx \<and> content_id ex = Some ''x''
     \<and> ey \<in> set fy \<and> content_id ey = Some ''y''
     \<and> fusion_key ey - fusion_key ex = 0.05"
proof -
  have w: "algorithm_weights two_algorithms = [(''algorithm_1'', 1/2), (''algorithm_2'', 1/2)]"
    by (simp add: two_algorithms_def)
  have n: "''algorithm_1'' \<noteq> ''algorithm_2''" by simp
  obtain fx where fx: "fuse_algorithm_results two_algorithms
      [(''algorithm_1'', article ''x'' ''Item X'' 0.8 # [article ''z'' ''Item Z'' 0.6]),
       (''algorithm_2'', [article ''z'' ''Item Z'' 0.7])] = Inr fx"
    by (simp add: fuse_algorithm_results_def two_algorithms_def default_config_def
        article_def item_def record_content_def original_score_def fuse_content_def Let_def)
  obtain fy where fy: "fuse_algorithm_results two_algorithms
      [(''algorithm_1'', article ''y'' ''Item Y'' 0.8 # [article ''z'' ''Item Z'' 0.6]),
       (''algorithm_2'', article ''y'' ''Item Y'' 0.8 # [])] = Inr fy"
    by (simp add: fuse_algorithm_results_def two_algorithms_def default_config_def
        article_def item_def record_content_def original_score_def fuse_content_def Let_def)
  have x: "content_id (article ''x'' ''Item X'' 0.8) = Some ''x''"
    "original_score (article ''x'' ''Item X'' 0.8) = 0.8"
    "Some ''x'' \<notin> content_id ` set ([article ''z'' ''Item Z'' 0.6] @ [article ''z'' ''Item Z'' 0.7])"
    by (simp_all add: article_def item_def original_score_def)
  have y: "content_id (article ''y'' ''Item Y'' 0.8) = Some ''y''"
    "original_score (article ''y'' ''Item Y'' 0.8) = 0.8"
    "Some ''y'' \<notin> content_id ` set ([article ''z'' ''Item Z'' 0.6] @ [])"
    by (simp_all add: article_def item_def original_score_def)
  note r = C8_coverage_bonus_difference [OF w n fx x fy y(1,2) y(1,2) y(3)]
  from r obtain ex ey where "ex \<in> set fx" "content_id ex = Some ''x''"
    "ey \<in> set fy" "content_id ey = Some ''y''" by blast
  moreover from this r have "fusion_key ey - fusion_key ex = 0.05" by blast
  ultimately show ?thesis
    using fx fy by (auto simp: only_first_results_def both_results_def)
qed


text \<open>C9, witness: two items and a target size of five.\<close>

theorem C9_witness:
  "int (length [item ''a'', item ''b'']) \<le> 5
   \<and> ensure_diversity default_config [item ''a'', item ''b''] 5 = Some [item ''a'', item ''b'']"
  using C9_small_list_unchanged [of "[item ''a'', item ''b'']" 5 default_config] by simp

text \<open>
  C10, witness: an item with \<open>content_id\<close> only, under the default configuration.
\<close>

theorem C10_witness:
  "quality_score (item ''c1'') = None \<and> user_rating (item ''c1'') = None
   \<and> review_status (item ''c1'') = None
   \<and> get_or (require_content_review (business_rules default_config)) True
   \<and> rejection default_config 0 ''viewer'' None (item ''c1'')
       = rejection default_config 0 ''viewer'' None ((item ''c1'')\<lparr>quality_score := Some 0.8\<rparr>)
   \<and> rejection default_config 0 ''viewer'' None (item ''c1'')
       = rejection default_config 0 ''viewer'' None ((item ''c1'')\<lparr>user_rating := Some 5.0\<rparr>)
   \<and> rejection default_config 0 ''viewer'' None (item ''c1'')
       = rejection default_config 0 ''viewer'' None ((item ''c1'')\<lparr>review_status := Some ''pending''\<rparr>)
   \<and> rejection default_config 0 ''viewer'' None (item ''c1'') \<noteq> Some low_quality
   \<and> rejection default_config 0 ''viewer'' None (item ''c1'') \<noteq> Some low_rating
   \<and> rejection default_config 0 ''viewer'' None (item ''c1'') \<noteq> None"
proof -
  have h: "quality_score (item ''c1'') = None" "user_rating (item ''c1'') = None"
    "review_status (item ''c1'') = None"
    "get_or (require_content_review (business_rules default_config)) True"
    by (simp_all add: item_def default_config_def)
  from C10_missing_fields_defaults [of "item ''c1''" default_config 0 "''viewer''" None] h
  show ?thesis by blast
qed

subsection \<open>The same scores in double precision\<close>

lemma binary_exponent_binade:
  assumes "0 < x" and "2 powi k \<le> x" and "x < 2 powi (k + 1)" and "\<bar>k\<bar> \<le> int n"
  shows "binary_exponent n x = k"
  using assms
proof (induction n arbitrary: x k)
  case 0
  then show ?case by simp
next
  case (Suc n)
  show ?case
  proof (cases "x \<ge> 2")
    case True
    have "k \<ge> 1"
    proof (rule ccontr)
      assume "\<not> k \<ge> 1"
      then have "k + 1 \<le> 1" by simp
      then have "(2::real) powi (k + 1) \<le> 2 powi 1"
        by (intro power_int_increasing) auto
      with Suc.prems(3) True show False by simp
    qed
    have "binary_exponent n (x / 2) = k - 1"
    proof (rule Suc.IH)
      show "0 < x / 2" using Suc.prems(1) by simp
      show "2 powi (k - 1) \<le> x / 2"
        using Suc.prems(2) by (simp add: power_int_diff)
      show "x / 2 < 2 powi (k - 1 + 1)"
        using Suc.prems(3) by (simp add: power_int_add)
      show "\<bar>k - 1\<bar> \<le> int n" using Suc.prems(4) \<open>k \<ge> 1\<close> by simp
    qed
    then show ?thesis using True by simp
  next
    case False
    show ?thesis
    proof (cases "x < 1")
      case True
      have "k \<le> -1"
      proof (rule ccontr)
        assume "\<not> k \<le> -1"
        then have "0 \<le> k" by simp
        then have "(2::real) powi 0 \<le> 2 powi k"
          by (intro power_int_increasing) auto
        with Suc.prems(2) True show False by simp
      qed
      have "binary_exponent n (x * 2) = k + 1"
      proof (rule Suc.IH)
        show "0 < x * 2" using Suc.prems(1) by simp
        show "2 powi (k + 1) \<le> x * 2"
          using Suc.prems(2) by (simp add: power_int_add)
        show "x * 2 < 2 powi (k + 1 + 1)"
          using Suc.prems(3) by (simp add: power_int_add)
        show "\<bar>k + 1\<bar> \<le> int n" using Suc.prems(4) \<open>k \<le> -1\<close> by simp
      qed
      then show ?thesis using True False by simp
    next
      case x1: False
      have "k = 0"
      proof (rule ccontr)
        assume "k \<noteq> 0"
        then consider "k \<ge> 1" | "k \<le> -1" by linarith
        then show False
        proof cases
          case 1
          then have "(2::real) powi 1 \<le> 2 powi k" by (intro power_int_increasing) auto
          with Suc.prems(2) False show False by simp
        next
          case 2
          then have "k + 1 \<le> 0" by simp
          then have "(2::real) powi (k + 1) \<le> 2 powi 0" by (intro power_int_increasing) auto
          with Suc.prems(3) x1 show False by simp
        qed
      qed
      then show ?thesis using False x1 by simp
    qed
  qed
qed

lemma binary64_binade:
  assumes "2 powi k \<le> \<bar>x\<bar>" and "\<bar>x\<bar> < 2 powi (k + 1)" and "\<bar>k\<bar> \<le> 1100"
  shows "binary64 x = of_int (round_half_even (x / 2 powi (k - 52))) * 2 powi (k - 52)"
proof -
  have pos: "0 < \<bar>x\<bar>"
    using assms(1) by (smt (verit) zero_less_power_int)
  then have nz: "x \<noteq> 0" by simp
  have e: "binary_exponent 1100 \<bar>x\<bar> = k"
    using binary_exponent_binade [OF pos assms(1,2), of 1100] assms(3) by simp
  have q: "(if k - 52 \<ge> 0 then (2::real) ^ nat (k - 52) else 1 / 2 ^ nat (- (k - 52))) = 2 powi (k - 52)"
    by (simp add: power_int_def field_simps)
  show ?thesis
    unfolding binary64_def Let_def e using nz q by simp
qed

lemma binary64_fraction:
  assumes "1 \<le> \<bar>x\<bar> * 2 ^ j" and "\<bar>x\<bar> * 2 ^ j < 2" and "j \<le> 1000"
  shows "binary64 x = of_int (round_half_even (x * 2 ^ (j + 52))) / 2 ^ (j + 52)"
proof -
  have p: "(2::real) powi (- int j) = 1 / 2 ^ j"
    by (simp add: power_int_def field_simps)
  have "(2::real) powi (- int j + 1) = 2 powi (- int j) * 2 powi 1"
    by (rule power_int_add) simp
  then have p1: "(2::real) powi (- int j + 1) = 2 / 2 ^ j"
    by (simp add: p)
  have q: "(2::real) powi (- int j - 52) = 1 / 2 ^ (j + 52)"
    by (simp add: power_int_def field_simps nat_add_distrib)
  have "1 / 2 ^ j \<le> \<bar>x\<bar>" using assms(1) by (simp add: field_simps)
  then have a: "2 powi (- int j) \<le> \<bar>x\<bar>" by (simp only: p)
  have "\<bar>x\<bar> < 2 / 2 ^ j" using assms(2) by (simp add: field_simps)
  then have b: "\<bar>x\<bar> < 2 powi (- int j + 1)" by (simp only: p1)
  have c: "\<bar>- int j\<bar> \<le> 1100" using assms(3) by simp
  have "binary64 x = of_int (round_half_even (x / 2 powi (- int j - 52))) * 2 powi (- int j - 52)"
    by (rule binary64_binade [OF a b c])
  then show ?thesis by (simp only: q) simp
qed

lemmas rhe = round_half_even_def Let_def

lemma rnd_0: "binary64 (450359962737049 / 9007199254740992) = 450359962737049 / 9007199254740992"
  by (subst binary64_fraction [where j = 5]) (simp_all add: rhe)

lemma rnd_1: "binary64 (1 / 20) = 3602879701896397 / 72057594037927936"
  by (subst binary64_fraction [where j = 5]) (simp_all add: rhe)

lemma rnd_2: "binary64 (3602879701896397 / 72057594037927936) = 3602879701896397 / 72057594037927936"
  by (subst binary64_fraction [where j = 5]) (simp_all add: rhe)

lemma rnd_3: "binary64 (1 / 10) = 3602879701896397 / 36028797018963968"
  by (subst binary64_fraction [where j = 4]) (simp_all add: rhe)

lemma rnd_4: "binary64 (3602879701896397 / 36028797018963968) = 3602879701896397 / 36028797018963968"
  by (subst binary64_fraction [where j = 4]) (simp_all add: rhe)

lemma rnd_5: "binary64 (3602879701896397 / 9007199254740992) = 3602879701896397 / 9007199254740992"
  by (subst binary64_fraction [where j = 2]) (simp_all add: rhe)

lemma rnd_6: "binary64 (1 / 2) = 1 / 2"
  by (subst binary64_fraction [where j = 1]) (simp_all add: rhe)

lemma rnd_7: "binary64 (4 / 5) = 3602879701896397 / 4503599627370496"
  by (subst binary64_fraction [where j = 1]) (simp_all add: rhe)

lemma rnd_8: "binary64 (3602879701896397 / 4503599627370496) = 3602879701896397 / 4503599627370496"
  by (subst binary64_fraction [where j = 1]) (simp_all add: rhe)

lemma rnd_9: "binary64 (61248954932238749 / 72057594037927936) = 1914029841632461 / 2251799813685248"
  by (subst binary64_fraction [where j = 1]) (simp_all add: rhe)

lemma rnd_10: "binary64 (32425917317067573 / 36028797018963968) = 8106479329266893 / 9007199254740992"
  by (subst binary64_fraction [where j = 1]) (simp_all add: rhe)

lemma rnd_11: "binary64 1 = 1"
  by (subst binary64_fraction [where j = 0]) (simp_all add: rhe)

lemmas rnd_values = rnd_0 rnd_1 rnd_2 rnd_3 rnd_4 rnd_5 rnd_6 rnd_7 rnd_8 rnd_9 rnd_10 rnd_11

text \<open>
  With exact arithmetic, \<open>fusion_score_with\<close> is the score that \<open>fuse_content\<close>
  attaches to an item whose entries \<open>record_content\<close> has stored.
\<close>

lemma fusion_foldl_exact:
  "foldl (\<lambda>(ws, tw) (original, idx, weight).
             let position_score = 1.0 / (real idx + 1);
                 combined_score = original * position_score
             in (ws + combined_score * weight, tw + weight))
      (a, b) entries
   = (a + (\<Sum>(original, idx, weight) \<leftarrow> entries. original * (1.0 / (real idx + 1)) * weight),
      b + (\<Sum>(original, idx, weight) \<leftarrow> entries. weight))"
  by (induction entries arbitrary: a b) (auto simp: Let_def)

lemma fuse_content_exact:
  "map_sum id fusion_score
     (fuse_content svc
        (map (\<lambda>(a, original, idx, weight).
                (a, \<lparr>si_score = original * (1.0 / (real idx + 1)), si_weight = weight,
                     si_position = idx\<rparr>)) named) c)
   = map_sum id Some
       (fusion_score_with (\<lambda>x. x) (map snd named) (length (algorithm_weights svc)))"
proof -
  have w: "(\<Sum>(a, i) \<leftarrow> map (\<lambda>(a, original, idx, weight).
                (a, \<lparr>si_score = original * (1.0 / (real idx + 1)), si_weight = weight,
                     si_position = idx\<rparr>)) named. si_score i * si_weight i)
      = (\<Sum>(original, idx, weight) \<leftarrow> map snd named. original * (1.0 / (real idx + 1)) * weight)"
    by (induction named) auto
  have t: "(\<Sum>(a, i) \<leftarrow> map (\<lambda>(a, original, idx, weight).
                (a, \<lparr>si_score = original * (1.0 / (real idx + 1)), si_weight = weight,
                     si_position = idx\<rparr>)) named. si_weight i)
      = (\<Sum>(original, idx, weight) \<leftarrow> map snd named. weight)"
    by (induction named) auto
  show ?thesis
    unfolding fuse_content_def fusion_score_with_def fusion_foldl_exact w t
    by (simp add: Let_def)
qed

text \<open>
  C8 (as stated, refuted). With the literals 0.8, 0.5 and 0.1 and every operation
  rounded to double precision, as the interpreter computes them, the fusion score of
  \<open>X\<close> is 0.8500000000000001 and that of \<open>Y\<close> is 0.9; their difference,
  0.04999999999999993, is neither the real number 0.05 nor the double nearest to it.
\<close>

theorem C8_counterexample:
  "fusion_score_with binary64 [(binary64 0.8, 0, binary64 0.5)] 2
     = Inr (1914029841632461 / 2251799813685248)
   \<and> fusion_score_with binary64
       [(binary64 0.8, 0, binary64 0.5), (binary64 0.8, 0, binary64 0.5)] 2
     = Inr (8106479329266893 / 9007199254740992)
   \<and> binary64 (8106479329266893 / 9007199254740992 - 1914029841632461 / 2251799813685248)
       \<noteq> binary64 0.05
   \<and> 8106479329266893 / 9007199254740992 - 1914029841632461 / 2251799813685248
       \<noteq> (0.05 :: real)"
  by (simp add: fusion_score_with_def rnd_values)

end
